theory Spec2Isabelle
  imports Main "HOL-Library.Sublist"
begin

section \<open>Configuration helpers (core/config.ts)\<close>

text \<open>
  Strings are lists of characters. JavaScript's optional fields (\<open>domain?: string\<close>) are
  \<open>option\<close> values, with \<open>None\<close> for \<open>undefined\<close>.
\<close>

datatype same_site = lax | strict | none

text \<open>The interface \<open>CookieConfig\<close> of core/types.ts.\<close>

record cookie_config =
  cfg_domain :: "string option"
  cfg_path :: "string option"
  cfg_secure :: "bool option"
  cfg_httpOnly :: "bool option"
  cfg_sameSite :: "same_site option"
  cfg_prefix :: string

text \<open>The interface \<open>CookieSerializeOptions\<close> of core/types.ts.\<close>

record cookie_serialize_options =
  domain :: "string option"
  path :: "string option"
  secure :: "bool option"
  httpOnly :: "bool option"
  sameSite :: "same_site option"
  maxAge :: "int option"

text \<open>The interface \<open>CookieNames\<close> of core/types.ts.\<close>

record cookie_names =
  accessToken :: string
  refreshToken :: string
  codeVerifier :: string
  tempSessionId :: string
  authSessionId :: string

definition REFRESH_TOKEN_EXPIRY :: int where
  "REFRESH_TOKEN_EXPIRY = 60 * 60 * 24 * 365"

definition getCookieNames :: "string \<Rightarrow> cookie_names" where
  "getCookieNames p =
     \<lparr> accessToken = p @ ''_access_token'',
       refreshToken = p @ ''_refresh_token'',
       codeVerifier = p @ ''_code_verifier'',
       tempSessionId = p @ ''_temp_session_id'',
       authSessionId = p @ ''_auth_session_id'' \<rparr>"

text \<open>
  \<open>String.prototype.toLowerCase\<close>, character by character: the letters A to Z move to a to z,
  every other character stays. (No character outside ASCII lowers to a character of
  \<open>https://\<close>.)
\<close>

definition lower_char :: "char \<Rightarrow> char" where
  "lower_char c =
     (let n = (of_char c :: nat) in if 65 \<le> n \<and> n \<le> 90 then char_of (n + 32) else c)"

definition toLowerCase :: "string \<Rightarrow> string" where
  "toLowerCase s = map lower_char s"

text \<open>\<open>String.prototype.startsWith\<close>.\<close>

definition startsWith :: "string \<Rightarrow> string \<Rightarrow> bool" where
  "startsWith s p = (take (length p) s = p)"

text \<open>The nullish coalescing operator \<open>a ?? b\<close>.\<close>

definition nullish_or :: "'a option \<Rightarrow> 'a \<Rightarrow> 'a" where
  "nullish_or a b = (case a of None \<Rightarrow> b | Some v \<Rightarrow> v)"

definition buildCookieOptions :: "cookie_config \<Rightarrow> string \<Rightarrow> cookie_serialize_options" where
  "buildCookieOptions config origin =
     \<lparr> domain = cfg_domain config,
       path = Some (nullish_or (cfg_path config) ''/''),
       secure = Some (startsWith (toLowerCase origin) ''https://''),
       httpOnly = Some (nullish_or (cfg_httpOnly config) True),
       sameSite = Some (nullish_or (cfg_sameSite config) lax),
       maxAge = None \<rparr>"

definition withExpiry :: "cookie_serialize_options \<Rightarrow> int \<Rightarrow> cookie_serialize_options" where
  "withExpiry options age = options\<lparr> maxAge := Some age \<rparr>"

text \<open>
  The scheme of an origin, read the way the specification words it: the text in front of the
  first \<open>://\<close>. An origin without \<open>://\<close> declares no scheme.
\<close>

fun origin_scheme :: "string \<Rightarrow> string option" where
  "origin_scheme [] = None"
| "origin_scheme (c # cs) =
     (if take 3 (c # cs) = ''://'' then Some []
      else map_option (\<lambda>r. c # r) (origin_scheme cs))"

definition scheme_is_https :: "string \<Rightarrow> bool" where
  "scheme_is_https origin = (map_option toLowerCase (origin_scheme origin) = Some ''https'')"

section \<open>Decoded claims (core/types.ts, jwt-decode)\<close>

text \<open>
  \<open>jwtDecode\<close> returns whatever \<open>JSON.parse\<close> makes of the payload segment. The cast
  \<open>jwtDecode<AuthClaims>\<close> is not checked when the program runs, so a decoded payload is a
  JSON value, and a JavaScript value is a JSON value or \<open>undefined\<close> (\<open>None\<close>).
  The own properties of an object are an association list, read by \<open>map_of\<close>.
\<close>

datatype json =
    JNull
  | JBool bool
  | JNum int
  | JStr string
  | JArr "json list"
  | JObj "(string \<times> json) list"

text \<open>What the program can throw, or a promise can reject with.\<close>

datatype thrown =
    InvalidTokenError
  | TypeError
  | ResponseBodyError string
  | Error string

text \<open>The property \<open>err.error\<close> of a caught value.\<close>

fun error_code :: "thrown \<Rightarrow> string option" where
  "error_code (ResponseBodyError c) = Some c"
| "error_code _ = None"

text \<open>
  Reading one of the claim properties (\<open>sub\<close>, \<open>active_tenant\<close>, \<open>all_tenants\<close>,
  \<open>realm_access\<close>, \<open>roles\<close>, \<open>tenant_id\<close>) of a value that is neither \<open>null\<close> nor
  \<open>undefined\<close>: an object gives its property, any other value gives \<open>undefined\<close>.
\<close>

fun get_member :: "json \<Rightarrow> string \<Rightarrow> json option" where
  "get_member (JObj kvs) k = map_of kvs k"
| "get_member _ k = None"

text \<open>\<open>v.k\<close>: a TypeError on \<open>null\<close> and \<open>undefined\<close>.\<close>

fun js_prop :: "json option \<Rightarrow> string \<Rightarrow> thrown + json option" where
  "js_prop None k = Inl TypeError"
| "js_prop (Some JNull) k = Inl TypeError"
| "js_prop (Some v) k = Inr (get_member v k)"

text \<open>\<open>v?.k\<close>: \<open>undefined\<close> on \<open>null\<close> and \<open>undefined\<close>.\<close>

fun js_opt_prop :: "json option \<Rightarrow> string \<Rightarrow> json option" where
  "js_opt_prop None k = None"
| "js_opt_prop (Some JNull) k = None"
| "js_opt_prop (Some v) k = get_member v k"

text \<open>Truthiness of a JavaScript value.\<close>

fun js_truthy :: "json option \<Rightarrow> bool" where
  "js_truthy None = False"
| "js_truthy (Some JNull) = False"
| "js_truthy (Some (JBool b)) = b"
| "js_truthy (Some (JNum n)) = (n \<noteq> 0)"
| "js_truthy (Some (JStr s)) = (s \<noteq> [])"
| "js_truthy (Some (JArr xs)) = True"
| "js_truthy (Some (JObj kvs)) = True"

text \<open>\<open>String.prototype.includes\<close>: \<open>includes_str t p\<close> is \<open>t.includes(p)\<close>.\<close>

fun includes_str :: "string \<Rightarrow> string \<Rightarrow> bool" where
  "includes_str [] p = (p = [])"
| "includes_str (c # cs) p = (startsWith (c # cs) p \<or> includes_str cs p)"

text \<open>
  \<open>v.includes(s)\<close> for a string \<open>s\<close> and a value \<open>v\<close> that is not nullish: membership in an
  array, substring search in a string, and a TypeError on a value that has no method
  \<open>includes\<close>.
\<close>

fun js_includes :: "json \<Rightarrow> string \<Rightarrow> thrown + bool" where
  "js_includes (JArr xs) s = Inr (JStr s \<in> set xs)"
| "js_includes (JStr t) s = Inr (includes_str t s)"
| "js_includes _ s = Inl TypeError"

text \<open>\<open>xs.map(f)\<close> where \<open>f\<close> may throw: the first throw ends the loop.\<close>

fun map_throwing :: "('a \<Rightarrow> thrown + 'b) \<Rightarrow> 'a list \<Rightarrow> thrown + 'b list" where
  "map_throwing f [] = Inr []"
| "map_throwing f (x # xs) =
     (case f x of
        Inl e \<Rightarrow> Inl e
      | Inr y \<Rightarrow> (case map_throwing f xs of Inl e \<Rightarrow> Inl e | Inr ys \<Rightarrow> Inr (y # ys)))"

section \<open>Token helpers (core/tokens.ts)\<close>

text \<open>
  The OpenID Connect library and the JWT decoder are outside the repository. They are
  parameters of the model: \<open>jwtDecode\<close> gives \<open>None\<close> where the library throws
  \<open>InvalidTokenError\<close>; the three network operations return \<open>Inl\<close> where their promise
  rejects; \<open>newURL\<close> is the \<open>URL\<close> constructor, \<open>None\<close> where it throws a TypeError.
  The \<open>Configuration\<close> object the source passes to each of them is part of the parameter.
\<close>

record token_set =
  access_token :: string
  refresh_token :: "string option"
  expires_in :: "int option"

record oidc_env =
  jwtDecode :: "string \<Rightarrow> json option"
  fetchUserInfo :: "string \<Rightarrow> json \<Rightarrow> thrown + unit"
  refreshTokenGrant :: "string \<Rightarrow> thrown + token_set"
  authorizationCodeGrant :: "string \<Rightarrow> string \<Rightarrow> thrown + token_set"
  newURL :: "string \<Rightarrow> string option"

definition decodeAccessToken :: "oidc_env \<Rightarrow> string \<Rightarrow> thrown + json" where
  "decodeAccessToken env tok =
     (case jwtDecode env tok of None \<Rightarrow> Inl InvalidTokenError | Some claims \<Rightarrow> Inr claims)"

text \<open>
  The body of the \<open>try\<close> block of \<open>isTenantAdmin\<close>:
  \<open>claims.active_tenant?.roles?.includes("tenant-admin") ?? false\<close>.
\<close>

definition isTenantAdmin_try :: "oidc_env \<Rightarrow> string \<Rightarrow> thrown + bool" where
  "isTenantAdmin_try env tok =
     (case decodeAccessToken env tok of
        Inl e \<Rightarrow> Inl e
      | Inr claims \<Rightarrow>
          (case js_prop (Some claims) ''active_tenant'' of
             Inl e \<Rightarrow> Inl e
           | Inr active \<Rightarrow>
               (let roles = js_opt_prop active ''roles''
                in case roles of
                     None \<Rightarrow> Inr False
                   | Some JNull \<Rightarrow> Inr False
                   | Some r \<Rightarrow> js_includes r ''tenant-admin'')))"

text \<open>
  The \<open>catch\<close> block returns \<open>false\<close> (after a call of the logger, which the model of this
  pure helper leaves out).
\<close>

definition isTenantAdmin :: "oidc_env \<Rightarrow> string \<Rightarrow> bool" where
  "isTenantAdmin env tok =
     (case isTenantAdmin_try env tok of Inl e \<Rightarrow> False | Inr b \<Rightarrow> b)"

text \<open>The callback \<open>(t) => t.tenant_id\<close>.\<close>

definition tenant_id_of :: "json \<Rightarrow> thrown + json option" where
  "tenant_id_of t = js_prop (Some t) ''tenant_id''"

text \<open>
  The body of the \<open>try\<close> block of \<open>getTenantIds\<close>:
  \<open>claims.all_tenants?.map((t) => t.tenant_id).filter((id) => id !== undefined) ?? []\<close>.
\<close>

definition getTenantIds_try :: "oidc_env \<Rightarrow> string \<Rightarrow> thrown + json list" where
  "getTenantIds_try env tok =
     (case decodeAccessToken env tok of
        Inl e \<Rightarrow> Inl e
      | Inr claims \<Rightarrow>
          (case js_prop (Some claims) ''all_tenants'' of
             Inl e \<Rightarrow> Inl e
           | Inr None \<Rightarrow> Inr []
           | Inr (Some JNull) \<Rightarrow> Inr []
           | Inr (Some (JArr ts)) \<Rightarrow>
               (case map_throwing tenant_id_of ts of
                  Inl e \<Rightarrow> Inl e
                | Inr ids \<Rightarrow> Inr (List.map_filter (\<lambda>i. i) ids))
           | Inr (Some other) \<Rightarrow> Inl TypeError))"

definition getTenantIds :: "oidc_env \<Rightarrow> string \<Rightarrow> json list" where
  "getTenantIds env tok =
     (case getTenantIds_try env tok of Inl e \<Rightarrow> [] | Inr ids \<Rightarrow> ids)"

definition getActiveTenantId :: "oidc_env \<Rightarrow> string \<Rightarrow> json option" where
  "getActiveTenantId env tok =
     (case decodeAccessToken env tok of
        Inl e \<Rightarrow> None
      | Inr claims \<Rightarrow>
          (case js_prop (Some claims) ''active_tenant'' of
             Inl e \<Rightarrow> None
           | Inr active \<Rightarrow> js_opt_prop active ''tenant_id''))"

text \<open>\<open>claims.realm_access?.roles ?? []\<close>, and \<open>[]\<close> from the \<open>catch\<close> block.\<close>

definition getRealmRoles :: "oidc_env \<Rightarrow> string \<Rightarrow> json" where
  "getRealmRoles env tok =
     (case decodeAccessToken env tok of
        Inl e \<Rightarrow> JArr []
      | Inr claims \<Rightarrow>
          (case js_prop (Some claims) ''realm_access'' of
             Inl e \<Rightarrow> JArr []
           | Inr realm \<Rightarrow>
               (case js_opt_prop realm ''roles'' of
                  None \<Rightarrow> JArr []
                | Some JNull \<Rightarrow> JArr []
                | Some r \<Rightarrow> r)))"

text \<open>
  \<open>getRealmRoles(accessToken).includes(role)\<close>: the call of \<open>includes\<close> stands outside
  every \<open>try\<close> block.
\<close>

definition hasRealmRole :: "oidc_env \<Rightarrow> string \<Rightarrow> string \<Rightarrow> thrown + bool" where
  "hasRealmRole env tok role = js_includes (getRealmRoles env tok) role"

section \<open>The cookie adapter, the session store and what a call does\<close>

text \<open>
  The \<open>CookieAdapter\<close> is a jar of cookie values by name. Every call that leaves the
  program (a cookie write, a network operation, a store operation, a logger call) is
  appended to a trace, oldest first, so that a property can say which calls were made
  and in which order.
\<close>

datatype level = LDebug | LInfo | LWarn | LError

datatype event =
    CookieSet string string cookie_serialize_options
  | CookieDelete string cookie_serialize_options
  | UserInfoCall string json
  | RefreshCall string
  | ExchangeCall string string
  | SdsGetAccessToken string
  | SdsTempGet string string
  | SdsAuthNew string "string option"
  | Log level string

record world =
  jar :: "string \<Rightarrow> string option"
  trace :: "event list"

definition emit :: "event \<Rightarrow> world \<Rightarrow> world" where
  "emit e w = w\<lparr> trace := trace w @ [e] \<rparr>"

definition cookies_get :: "world \<Rightarrow> string \<Rightarrow> string option" where
  "cookies_get w name = jar w name"

definition cookies_set :: "string \<Rightarrow> string \<Rightarrow> cookie_serialize_options \<Rightarrow> world \<Rightarrow> world" where
  "cookies_set name v options w =
     w\<lparr> jar := (jar w)(name \<mapsto> v), trace := trace w @ [CookieSet name v options] \<rparr>"

definition cookies_delete :: "string \<Rightarrow> cookie_serialize_options \<Rightarrow> world \<Rightarrow> world" where
  "cookies_delete name options w =
     w\<lparr> jar := (jar w)(name := None), trace := trace w @ [CookieDelete name options] \<rparr>"

text \<open>
  Truthiness of \<open>string | undefined\<close> and of \<open>number | undefined\<close>: the value where it is
  truthy, \<open>None\<close> where it is falsy (\<open>undefined\<close>, the empty string, zero).
\<close>

fun truthy_str :: "string option \<Rightarrow> string option" where
  "truthy_str None = None"
| "truthy_str (Some s) = (if s = [] then None else Some s)"

fun truthy_num :: "int option \<Rightarrow> int option" where
  "truthy_num None = None"
| "truthy_num (Some n) = (if n = 0 then None else Some n)"

text \<open>The result type \<open>AuthResult\<close>.\<close>

datatype auth_result = Success json string | Fail

text \<open>The request URL: the three properties the program reads.\<close>

record url =
  pathname :: string
  search :: string
  searchParams :: "(string \<times> string) list"

definition has_param :: "url \<Rightarrow> string \<Rightarrow> bool" where
  "has_param u k = (k \<in> set (map fst (searchParams u)))"

definition isOidcCallback :: "url \<Rightarrow> bool" where
  "isOidcCallback u = (has_param u ''session_state'' \<and> has_param u ''code'')"

section \<open>Validation and refresh (core/tokens.ts)\<close>

text \<open>The body of the \<open>try\<close> block of \<open>validateAccessToken\<close>.\<close>

definition validateAccessToken_try :: "oidc_env \<Rightarrow> string \<Rightarrow> world \<Rightarrow> (thrown + unit) \<times> world" where
  "validateAccessToken_try env tok w =
     (case jwtDecode env tok of
        None \<Rightarrow> (Inl InvalidTokenError, w)
      | Some claims \<Rightarrow>
          (case js_prop (Some claims) ''sub'' of
             Inl e \<Rightarrow> (Inl e, w)
           | Inr None \<Rightarrow> (Inl (Error ''No sub claim in access token''), w)
           | Inr (Some sub) \<Rightarrow>
               if js_truthy (Some sub)
               then (fetchUserInfo env tok sub, emit (UserInfoCall tok sub) w)
               else (Inl (Error ''No sub claim in access token''), w)))"

definition validateAccessToken :: "oidc_env \<Rightarrow> string \<Rightarrow> world \<Rightarrow> bool \<times> world" where
  "validateAccessToken env tok w =
     (case validateAccessToken_try env tok w of
        (Inr u, w1) \<Rightarrow> (True, w1)
      | (Inl e, w1) \<Rightarrow> (False, emit (Log LError ''Invalid access token detected'') w1))"

definition refreshTokens :: "oidc_env \<Rightarrow> string \<Rightarrow> world \<Rightarrow> token_set option \<times> world" where
  "refreshTokens env refreshTok w =
     (let w1 = emit (Log LDebug ''Attempting to refresh tokens...'') w;
          w2 = emit (RefreshCall refreshTok) w1
      in case refreshTokenGrant env refreshTok of
           Inr tokens \<Rightarrow> (Some tokens, w2)
         | Inl e \<Rightarrow> (None, emit (Log LError ''Token refresh failed'') w2))"

section \<open>The cookie-backed authenticator (core/auth.ts)\<close>

definition handleAuthSuccess ::
  "oidc_env \<Rightarrow> cookie_names \<Rightarrow> cookie_serialize_options \<Rightarrow> string \<Rightarrow> string option \<Rightarrow>
   int option \<Rightarrow> world \<Rightarrow> (thrown + auth_result) \<times> world" where
  "handleAuthSuccess env cookieNames cookieOptions accessTok refreshTok expiresIn w =
     (let w1 = (case truthy_num expiresIn of
                  Some n \<Rightarrow>
                    cookies_set (accessToken cookieNames) accessTok (withExpiry cookieOptions n) w
                | None \<Rightarrow> w);
          w2 = (case truthy_str refreshTok of
                  Some r \<Rightarrow>
                    cookies_set (refreshToken cookieNames) r
                      (withExpiry cookieOptions REFRESH_TOKEN_EXPIRY) w1
                | None \<Rightarrow> w1);
          w3 = cookies_delete (codeVerifier cookieNames) (withExpiry cookieOptions 0) w2
      in case decodeAccessToken env accessTok of
           Inl e \<Rightarrow> (Inl e, w3)
         | Inr claims \<Rightarrow> (Inr (Success claims accessTok), w3))"

definition handleAuthFailure ::
  "cookie_names \<Rightarrow> cookie_serialize_options \<Rightarrow> world \<Rightarrow> auth_result \<times> world" where
  "handleAuthFailure cookieNames cookieOptions w =
     (let expiredOptions = withExpiry cookieOptions 0;
          w1 = cookies_delete (accessToken cookieNames) expiredOptions w;
          w2 = cookies_delete (refreshToken cookieNames) expiredOptions w1;
          w3 = cookies_delete (codeVerifier cookieNames) expiredOptions w2;
          w4 = cookies_delete (authSessionId cookieNames) expiredOptions w3;
          w5 = cookies_delete (tempSessionId cookieNames) expiredOptions w4
      in (Fail, w5))"

text \<open>A function that returns without throwing, seen from an \<open>async\<close> caller.\<close>

definition returned :: "'a \<times> world \<Rightarrow> (thrown + 'a) \<times> world" where
  "returned rw = (Inr (fst rw), snd rw)"

definition doRefresh ::
  "oidc_env \<Rightarrow> string \<Rightarrow> cookie_names \<Rightarrow> cookie_serialize_options \<Rightarrow> world \<Rightarrow>
   (thrown + auth_result) \<times> world" where
  "doRefresh env refreshTok cookieNames cookieOptions w =
     (case refreshTokens env refreshTok w of
        (Some newTokens, w1) \<Rightarrow>
          handleAuthSuccess env cookieNames cookieOptions (access_token newTokens)
            (refresh_token newTokens) (expires_in newTokens)
            (emit (Log LDebug ''Tokens refreshed successfully'') w1)
      | (None, w1) \<Rightarrow>
          returned (handleAuthFailure cookieNames cookieOptions
            (emit (Log LDebug ''Token refresh failed'') w1)))"

text \<open>The \<open>catch\<close> block of \<open>handleOidcCallback\<close>.\<close>

definition handleOidcCallback_catch ::
  "thrown \<Rightarrow> cookie_names \<Rightarrow> cookie_serialize_options \<Rightarrow> world \<Rightarrow>
   (thrown + auth_result) \<times> world" where
  "handleOidcCallback_catch err cookieNames cookieOptions w =
     (if error_code err = Some ''invalid_grant'' then
        returned (handleAuthFailure cookieNames cookieOptions
          (emit (Log LError ''OIDC callback failed'')
            (emit (Log LError ''Invalid grant - check cookie forwarding and PUBLIC_DOMAIN'') w)))
      else if error_code err = Some ''unauthorized_client'' then
        (Inl (Error ''Invalid client credentials''), w)
      else
        returned (handleAuthFailure cookieNames cookieOptions
          (emit (Log LError ''OIDC callback failed'') w)))"

definition handleOidcCallback ::
  "oidc_env \<Rightarrow> url \<Rightarrow> string \<Rightarrow> string option \<Rightarrow> cookie_names \<Rightarrow>
   cookie_serialize_options \<Rightarrow> world \<Rightarrow> (thrown + auth_result) \<times> world" where
  "handleOidcCallback env u origin verifier cookieNames cookieOptions w =
     (case truthy_str verifier of
        None \<Rightarrow>
          returned (handleAuthFailure cookieNames cookieOptions
            (emit (Log LError ''No code verifier found for OIDC callback'') w))
      | Some v \<Rightarrow>
          (case newURL env (origin @ pathname u @ search u) of
             None \<Rightarrow> (Inl TypeError, w)
           | Some callbackUrl \<Rightarrow>
               (let w1 = emit (ExchangeCall callbackUrl v) w
                in case authorizationCodeGrant env callbackUrl v of
                     Inl err \<Rightarrow> handleOidcCallback_catch err cookieNames cookieOptions w1
                   | Inr tokenSet \<Rightarrow>
                       (case handleAuthSuccess env cookieNames cookieOptions
                               (access_token tokenSet) (refresh_token tokenSet)
                               (expires_in tokenSet) w1 of
                          (Inl err, w2) \<Rightarrow>
                            handleOidcCallback_catch err cookieNames cookieOptions w2
                        | (Inr r, w2) \<Rightarrow> (Inr r, w2)))))"

text \<open>
  The three cookies are read first; then the first branch whose condition holds runs:
  both tokens, a refresh token alone, a callback URL, none of them.
\<close>

definition authenticate ::
  "oidc_env \<Rightarrow> url \<Rightarrow> string \<Rightarrow> cookie_names \<Rightarrow> cookie_serialize_options \<Rightarrow> world \<Rightarrow>
   (thrown + auth_result) \<times> world" where
  "authenticate env u origin cookieNames cookieOptions w =
     (let accessTok = cookies_get w (accessToken cookieNames);
          refreshTok = cookies_get w (refreshToken cookieNames);
          verifier = cookies_get w (codeVerifier cookieNames)
      in case (truthy_str accessTok, truthy_str refreshTok) of
           (Some a, Some r) \<Rightarrow>
             (case validateAccessToken env a w of
                (True, w1) \<Rightarrow> handleAuthSuccess env cookieNames cookieOptions a None None w1
              | (False, w1) \<Rightarrow> doRefresh env r cookieNames cookieOptions w1)
         | (None, Some r) \<Rightarrow> doRefresh env r cookieNames cookieOptions w
         | (_, None) \<Rightarrow>
             if isOidcCallback u then
               handleOidcCallback env u origin verifier cookieNames cookieOptions w
             else returned (handleAuthFailure cookieNames cookieOptions w))"

section \<open>The store-backed authenticator (core/sds.ts)\<close>

text \<open>
  The interface \<open>SdsClient\<close>: the three operations the authenticator calls, \<open>Inl\<close> where
  the promise rejects.
\<close>

record sds_client =
  authSessionGetAccessToken :: "string \<Rightarrow> thrown + string"
  tempSessionGet :: "string \<Rightarrow> string \<Rightarrow> thrown + string"
  authSessionNew :: "string \<Rightarrow> string option \<Rightarrow> thrown + string"

definition CODE_VERIFIER :: string where
  "CODE_VERIFIER = ''code_verifier''"

definition handleSdsAuthSuccess ::
  "oidc_env \<Rightarrow> cookie_names \<Rightarrow> cookie_serialize_options \<Rightarrow> string \<Rightarrow> string \<Rightarrow> world \<Rightarrow>
   (thrown + auth_result) \<times> world" where
  "handleSdsAuthSuccess env cookieNames cookieOptions accessTok sessionId w =
     (let w1 = cookies_set (authSessionId cookieNames) sessionId cookieOptions w;
          w2 = cookies_delete (tempSessionId cookieNames) (withExpiry cookieOptions 0) w1
      in case decodeAccessToken env accessTok of
           Inl e \<Rightarrow> (Inl e, w2)
         | Inr claims \<Rightarrow> (Inr (Success claims accessTok), w2))"

definition handleSdsAuthFailure ::
  "cookie_names \<Rightarrow> cookie_serialize_options \<Rightarrow> world \<Rightarrow> auth_result \<times> world" where
  "handleSdsAuthFailure cookieNames cookieOptions w =
     (let expiredOptions = withExpiry cookieOptions 0;
          w1 = cookies_delete (authSessionId cookieNames) expiredOptions w;
          w2 = cookies_delete (tempSessionId cookieNames) expiredOptions w1
      in (Fail, w2))"

text \<open>The \<open>catch\<close> block of \<open>handleSdsOidcCallback\<close>.\<close>

definition handleSdsOidcCallback_catch ::
  "thrown \<Rightarrow> cookie_names \<Rightarrow> cookie_serialize_options \<Rightarrow> world \<Rightarrow>
   (thrown + auth_result) \<times> world" where
  "handleSdsOidcCallback_catch err cookieNames cookieOptions w =
     (if error_code err = Some ''invalid_grant'' then
        returned (handleSdsAuthFailure cookieNames cookieOptions
          (emit (Log LError ''SDS OIDC callback failed'')
            (emit (Log LError ''Invalid grant - check cookie forwarding'') w)))
      else if error_code err = Some ''unauthorized_client'' then
        (Inl (Error ''Invalid client credentials''), w)
      else
        returned (handleSdsAuthFailure cookieNames cookieOptions
          (emit (Log LError ''SDS OIDC callback failed'') w)))"

definition handleSdsOidcCallback ::
  "oidc_env \<Rightarrow> sds_client \<Rightarrow> url \<Rightarrow> string \<Rightarrow> cookie_names \<Rightarrow> cookie_serialize_options \<Rightarrow>
   world \<Rightarrow> (thrown + auth_result) \<times> world" where
  "handleSdsOidcCallback env sdsClient u origin cookieNames cookieOptions w =
     (case truthy_str (cookies_get w (tempSessionId cookieNames)) of
        None \<Rightarrow>
          returned (handleSdsAuthFailure cookieNames cookieOptions
            (emit (Log LWarn ''No temp session ID for OIDC callback'') w))
      | Some tempId \<Rightarrow>
          (let w1 = emit (SdsTempGet tempId CODE_VERIFIER) w
           in case tempSessionGet sdsClient tempId CODE_VERIFIER of
                Inl err \<Rightarrow>
                  returned (handleSdsAuthFailure cookieNames cookieOptions
                    (emit (Log LWarn ''Failed to retrieve code verifier from SDS'') w1))
              | Inr v \<Rightarrow>
                  (case newURL env (origin @ pathname u @ search u) of
                     None \<Rightarrow> (Inl TypeError, w1)
                   | Some callbackUrl \<Rightarrow>
                       (let w2 = emit (ExchangeCall callbackUrl v) w1
                        in case authorizationCodeGrant env callbackUrl v of
                             Inl err \<Rightarrow>
                               handleSdsOidcCallback_catch err cookieNames cookieOptions w2
                           | Inr tokenSet \<Rightarrow>
                               (let w3 = emit (SdsAuthNew (access_token tokenSet)
                                                 (refresh_token tokenSet)) w2
                                in case authSessionNew sdsClient (access_token tokenSet)
                                          (refresh_token tokenSet) of
                                     Inl err \<Rightarrow>
                                       handleSdsOidcCallback_catch err cookieNames
                                         cookieOptions w3
                                   | Inr newId \<Rightarrow>
                                       (case handleSdsAuthSuccess env cookieNames cookieOptions
                                               (access_token tokenSet) newId w3 of
                                          (Inl err, w4) \<Rightarrow>
                                            handleSdsOidcCallback_catch err cookieNames
                                              cookieOptions w4
                                        | (Inr r, w4) \<Rightarrow> (Inr r, w4)))))))"

definition authenticateWithSds ::
  "oidc_env \<Rightarrow> sds_client \<Rightarrow> url \<Rightarrow> string \<Rightarrow> cookie_names \<Rightarrow> cookie_serialize_options \<Rightarrow>
   world \<Rightarrow> (thrown + auth_result) \<times> world" where
  "authenticateWithSds env sdsClient u origin cookieNames cookieOptions w =
     (case truthy_str (cookies_get w (authSessionId cookieNames)) of
        Some sessionId \<Rightarrow>
          (let w1 = emit (SdsGetAccessToken sessionId) w
           in case authSessionGetAccessToken sdsClient sessionId of
                Inl err \<Rightarrow>
                  returned (handleSdsAuthFailure cookieNames cookieOptions
                    (emit (Log LWarn ''Invalid SDS session'') w1))
              | Inr accessTok \<Rightarrow>
                  (case handleSdsAuthSuccess env cookieNames cookieOptions accessTok
                          sessionId w1 of
                     (Inl err, w2) \<Rightarrow>
                       returned (handleSdsAuthFailure cookieNames cookieOptions
                         (emit (Log LWarn ''Invalid SDS session'') w2))
                   | (Inr r, w2) \<Rightarrow> (Inr r, w2)))
      | None \<Rightarrow>
          if isOidcCallback u then
            handleSdsOidcCallback env sdsClient u origin cookieNames cookieOptions w
          else returned (handleSdsAuthFailure cookieNames cookieOptions w))"

section \<open>Reading a trace\<close>

text \<open>The calls a run added to the trace.\<close>

definition new_events :: "world \<Rightarrow> world \<Rightarrow> event list" where
  "new_events w w' = drop (length (trace w)) (trace w')"

fun is_cookie_op :: "event \<Rightarrow> bool" where
  "is_cookie_op (CookieSet n v options) = True"
| "is_cookie_op (CookieDelete n options) = True"
| "is_cookie_op _ = False"

fun is_exchange :: "event \<Rightarrow> bool" where
  "is_exchange (ExchangeCall cb v) = True"
| "is_exchange _ = False"

fun is_refresh :: "event \<Rightarrow> bool" where
  "is_refresh (RefreshCall r) = True"
| "is_refresh _ = False"

fun is_userinfo :: "event \<Rightarrow> bool" where
  "is_userinfo (UserInfoCall t s) = True"
| "is_userinfo _ = False"

text \<open>The cookie writes and deletions of one name.\<close>

fun touches :: "string \<Rightarrow> event \<Rightarrow> bool" where
  "touches name (CookieSet n v options) = (n = name)"
| "touches name (CookieDelete n options) = (n = name)"
| "touches name _ = False"

fun sets_cookie :: "string \<Rightarrow> event \<Rightarrow> bool" where
  "sets_cookie name (CookieSet n v options) = (n = name)"
| "sets_cookie name _ = False"

text \<open>The five cookie slots, and the two that hold session handles.\<close>

definition all_slots :: "cookie_names \<Rightarrow> string list" where
  "all_slots names =
     [accessToken names, refreshToken names, codeVerifier names, authSessionId names,
      tempSessionId names]"

definition session_slots :: "cookie_names \<Rightarrow> string list" where
  "session_slots names = [authSessionId names, tempSessionId names]"

text \<open>Deleting a list of cookies with \<open>maxAge = 0\<close>, in order.\<close>

definition deletions :: "cookie_serialize_options \<Rightarrow> string list \<Rightarrow> event list" where
  "deletions options slots = map (\<lambda>n. CookieDelete n (withExpiry options 0)) slots"

text \<open>
  A cookie operation of the store-backed authenticator that is not on one of the two
  session slots.
\<close>

definition off_session :: "cookie_names \<Rightarrow> event \<Rightarrow> bool" where
  "off_session names e =
     (is_cookie_op e \<and> \<not> touches (authSessionId names) e \<and> \<not> touches (tempSessionId names) e)"

section \<open>The declared shape of the claims\<close>

text \<open>
  The shape the interfaces \<open>AuthClaims\<close> and \<open>Tenant\<close> of core/types.ts declare, with every
  field optional (the helpers read each of them through \<open>?.\<close>).
\<close>

fun is_string :: "json \<Rightarrow> bool" where
  "is_string (JStr s) = True"
| "is_string _ = False"

fun string_array :: "json \<Rightarrow> bool" where
  "string_array (JArr xs) = list_all is_string xs"
| "string_array _ = False"

fun optional :: "(json \<Rightarrow> bool) \<Rightarrow> json option \<Rightarrow> bool" where
  "optional P None = True"
| "optional P (Some j) = P j"

fun tenant_shape :: "json \<Rightarrow> bool" where
  "tenant_shape (JObj kvs) =
     (optional is_string (map_of kvs ''tenant_id'') \<and>
      optional is_string (map_of kvs ''tenant_name'') \<and>
      optional string_array (map_of kvs ''roles''))"
| "tenant_shape _ = False"

fun tenant_array :: "json \<Rightarrow> bool" where
  "tenant_array (JArr ts) = list_all tenant_shape ts"
| "tenant_array _ = False"

fun realm_shape :: "json \<Rightarrow> bool" where
  "realm_shape (JObj kvs) = optional string_array (map_of kvs ''roles'')"
| "realm_shape _ = False"

fun claims_shape :: "json \<Rightarrow> bool" where
  "claims_shape (JObj kvs) =
     (optional tenant_shape (map_of kvs ''active_tenant'') \<and>
      optional tenant_array (map_of kvs ''all_tenants'') \<and>
      optional realm_shape (map_of kvs ''realm_access''))"
| "claims_shape _ = False"

text \<open>The items of an array; no items where the value is absent or not an array.\<close>

fun array_items :: "json option \<Rightarrow> json list" where
  "array_items (Some (JArr xs)) = xs"
| "array_items _ = []"

text \<open>A value on which a call of \<open>includes\<close> throws.\<close>

fun lacks_includes :: "json option \<Rightarrow> bool" where
  "lacks_includes None = False"
| "lacks_includes (Some JNull) = False"
| "lacks_includes (Some (JArr xs)) = False"
| "lacks_includes (Some (JStr s)) = False"
| "lacks_includes (Some _) = True"

section \<open>Concrete requests\<close>

text \<open>
  A provider, a store and requests to run the authenticators on. The provider answers by
  its input: the token \<open>jwt-user-123\<close> decodes to the claims of the test suite, the
  token \<open>jwt-odd\<close> to a payload whose realm roles are a number, any other token does not
  decode; the refresh tokens and code verifiers select the answer of the token endpoint.
\<close>

definition demo_claims :: json where
  "demo_claims =
     JObj [(''sub'', JStr ''user-123''),
           (''active_tenant'',
              JObj [(''tenant_id'', JStr ''t1''),
                    (''roles'', JArr [JStr ''tenant-admin'', JStr ''user''])]),
           (''all_tenants'',
              JArr [JObj [(''tenant_id'', JStr ''t1'')], JObj [(''tenant_id'', JStr ''t2'')]]),
           (''realm_access'', JObj [(''roles'', JArr [JStr ''admin'', JStr ''user''])])]"

definition odd_claims :: json where
  "odd_claims = JObj [(''realm_access'', JObj [(''roles'', JNum 5)])]"

definition demo_env :: oidc_env where
  "demo_env =
     \<lparr> jwtDecode = (\<lambda>t. if t = ''jwt-user-123'' then Some demo_claims
                        else if t = ''jwt-odd'' then Some odd_claims
                        else None),
       fetchUserInfo = (\<lambda>t sub. if t = ''jwt-user-123'' then Inr () else Inl (Error ''401'')),
       refreshTokenGrant =
         (\<lambda>r. if r = ''refresh-1''
              then Inr \<lparr> access_token = ''jwt-user-123'', refresh_token = None,
                         expires_in = Some 300 \<rparr>
              else if r = ''refresh-2''
              then Inr \<lparr> access_token = ''jwt-user-123'', refresh_token = Some ''refresh-3'',
                         expires_in = None \<rparr>
              else Inl (ResponseBodyError ''invalid_grant'')),
       authorizationCodeGrant =
         (\<lambda>cb v. if v = ''verifier-1''
                 then Inr \<lparr> access_token = ''opaque'', refresh_token = Some ''refresh-1'',
                            expires_in = None \<rparr>
                 else if v = ''verifier-2''
                 then Inl (ResponseBodyError ''unauthorized_client'')
                 else if v = ''verifier-3''
                 then Inr \<lparr> access_token = ''jwt-user-123'', refresh_token = Some ''refresh-2'',
                            expires_in = Some 0 \<rparr>
                 else Inl (ResponseBodyError ''invalid_grant'')),
       newURL = (\<lambda>s. Some s) \<rparr>"

definition demo_sds :: sds_client where
  "demo_sds =
     \<lparr> authSessionGetAccessToken =
         (\<lambda>sid. if sid = ''session-1'' then Inr ''jwt-user-123''
                else Inl (Error ''unknown session'')),
       tempSessionGet =
         (\<lambda>t k. if t = ''temp-2'' \<and> k = ''code_verifier'' then Inr ''verifier-2''
                else if t = ''temp-4'' \<and> k = ''code_verifier'' then Inr ''verifier-4''
                else Inl (Error ''unknown session'')),
       authSessionNew = (\<lambda>a r. Inr ''session-2'') \<rparr>"

definition demo_names :: cookie_names where
  "demo_names = getCookieNames ''app''"

definition demo_options :: cookie_serialize_options where
  "demo_options =
     \<lparr> domain = None, path = Some ''/'', secure = Some True, httpOnly = Some True,
       sameSite = Some lax, maxAge = None \<rparr>"

definition demo_origin :: string where
  "demo_origin = ''https://app''"

definition callback_url :: url where
  "callback_url =
     \<lparr> pathname = ''/cb'', search = ''?code=c1&session_state=s1'',
       searchParams = [(''code'', ''c1''), (''session_state'', ''s1'')] \<rparr>"

definition callback_href :: string where
  "callback_href = ''https://app/cb?code=c1&session_state=s1''"

definition plain_url :: url where
  "plain_url = \<lparr> pathname = ''/'', search = [], searchParams = [] \<rparr>"

text \<open>A request with the given cookies, before any call.\<close>

definition request :: "(string \<times> string) list \<Rightarrow> world" where
  "request cookies = \<lparr> jar = map_of cookies, trace = [] \<rparr>"

section \<open>Properties of the configuration helpers\<close>

lemma lower_char_sep: "lower_char CHR '':'' = CHR '':''" "lower_char CHR ''/'' = CHR ''/''"
  by (simp_all add: lower_char_def)

lemma lower_char_low: "of_char (lower_char c) < (65::nat) \<Longrightarrow> lower_char c = c"
  by (auto simp add: lower_char_def Let_def split: if_splits)

lemma lower_colon: "lower_char c = CHR '':'' \<Longrightarrow> c = CHR '':''"
  using lower_char_low[of c] by simp

lemma lower_slash: "lower_char c = CHR ''/'' \<Longrightarrow> c = CHR ''/''"
  using lower_char_low[of c] by simp

lemma map_lower_sep: "map lower_char t = ''://'' \<Longrightarrow> t = ''://''"
proof -
  assume a: "map lower_char t = ''://''"
  then obtain a1 a2 a3 where t: "t = [a1, a2, a3]"
    by (auto simp: map_eq_Cons_conv)
  with a show ?thesis by (auto dest: lower_colon lower_slash)
qed

lemma origin_scheme_append:
  "CHR '':'' \<notin> set sch \<Longrightarrow> origin_scheme (sch @ ''://'' @ r) = Some sch"
  by (induction sch) auto

lemma origin_scheme_split:
  "origin_scheme s = Some sch \<Longrightarrow> \<exists>r. s = sch @ ''://'' @ r"
proof (induction s arbitrary: sch)
  case Nil
  then show ?case by simp
next
  case (Cons c cs)
  show ?case
  proof (cases "take 3 (c # cs) = ''://''")
    case True
    then have "sch = []" using Cons.prems by simp
    moreover have "c # cs = ''://'' @ drop 3 (c # cs)"
      using True by (metis append_take_drop_id)
    ultimately show ?thesis by auto
  next
    case False
    then obtain r where r: "origin_scheme cs = Some r" "sch = c # r"
      using Cons.prems by auto
    from Cons.IH[OF r(1)] obtain t where "cs = r @ ''://'' @ t" by (elim exE)
    then show ?thesis using r(2) by auto
  qed
qed

lemma startsWith_iff: "startsWith s p \<longleftrightarrow> (\<exists>r. s = p @ r)"
  unfolding startsWith_def by (metis append_eq_conv_conj append_take_drop_id)

lemma map_append_split:
  "map f xs = ys @ zs \<Longrightarrow> \<exists>us vs. xs = us @ vs \<and> map f us = ys \<and> map f vs = zs"
proof -
  assume h: "map f xs = ys @ zs"
  have "xs = take (length ys) xs @ drop (length ys) xs" by simp
  moreover have "map f (take (length ys) xs) = ys"
    using h by (metis append_eq_conv_conj take_map)
  moreover have "map f (drop (length ys) xs) = zs"
    using h by (metis append_eq_conv_conj drop_map)
  ultimately show ?thesis by blast
qed

text \<open>
  The check the code makes (the lowered origin starts with \<open>https://\<close>) is the check that
  the origin's scheme is https.
\<close>

lemma https_prefix_iff_scheme:
  "startsWith (toLowerCase origin) ''https://'' = scheme_is_https origin"
proof
  assume "startsWith (toLowerCase origin) ''https://''"
  then obtain r where h: "map lower_char origin = ''https'' @ ''://'' @ r"
    by (auto simp: startsWith_iff toLowerCase_def)
  from map_append_split[OF h] obtain a t where o1: "origin = a @ t"
    and ma: "map lower_char a = ''https''" and mt: "map lower_char t = ''://'' @ r"
    by (elim exE conjE)
  from map_append_split[OF mt] obtain b c where o2: "t = b @ c"
    and mb: "map lower_char b = ''://''"
    by (elim exE conjE)
  have b: "b = ''://''" using mb by (rule map_lower_sep)
  have "CHR '':'' \<notin> set a"
  proof
    assume "CHR '':'' \<in> set a"
    then have "lower_char CHR '':'' \<in> set (map lower_char a)" by simp
    then show False unfolding ma by (simp add: lower_char_sep)
  qed
  then have "origin_scheme origin = Some a"
    unfolding o1 o2 b by (rule origin_scheme_append)
  then show "scheme_is_https origin"
    using ma by (simp add: scheme_is_https_def toLowerCase_def)
next
  assume "scheme_is_https origin"
  then obtain sch where s: "origin_scheme origin = Some sch" "toLowerCase sch = ''https''"
    by (auto simp: scheme_is_https_def)
  from origin_scheme_split[OF s(1)] obtain r where "origin = sch @ ''://'' @ r" by (elim exE)
  then have "toLowerCase origin = ''https://'' @ toLowerCase r"
    using s(2) by (simp add: toLowerCase_def lower_char_sep)
  then show "startsWith (toLowerCase origin) ''https://''"
    unfolding startsWith_iff by (intro exI)
qed

text \<open>
  Claim C7. For every cookie configuration and origin, \<open>buildCookieOptions\<close> sets
  \<open>secure\<close> to true exactly when the scheme of the origin is https: \<open>https://x\<close> gives
  true and \<open>http://x\<close> gives false. The result's \<open>secure\<close> is the same for every two
  configurations, and a \<open>secure\<close> field in the configuration changes nothing of the result.
\<close>

theorem buildCookieOptions_secure_from_origin:
  "secure (buildCookieOptions config origin) = Some (scheme_is_https origin)
   \<and> secure (buildCookieOptions config origin) = secure (buildCookieOptions config' origin)
   \<and> buildCookieOptions (config\<lparr> cfg_secure := s \<rparr>) origin = buildCookieOptions config origin
   \<and> secure (buildCookieOptions config ''https://x'') = Some True
   \<and> secure (buildCookieOptions config ''http://x'') = Some False"
proof -
  have code: "\<And>c. secure (buildCookieOptions c origin) = Some (scheme_is_https origin)"
    by (simp add: buildCookieOptions_def https_prefix_iff_scheme)
  have frame: "buildCookieOptions (config\<lparr> cfg_secure := s \<rparr>) origin
      = buildCookieOptions config origin"
    by (simp add: buildCookieOptions_def)
  have yes: "secure (buildCookieOptions config ''https://x'') = Some True"
    by (simp add: buildCookieOptions_def startsWith_def toLowerCase_def lower_char_def)
  have no: "secure (buildCookieOptions config ''http://x'') = Some False"
    by (simp add: buildCookieOptions_def startsWith_def toLowerCase_def lower_char_def)
  show ?thesis using code frame yes no by simp
qed

section \<open>Cookies and traces\<close>

lemma emit_simps [simp]:
  "trace (emit e w) = trace w @ [e]" "jar (emit e w) = jar w"
  by (simp_all add: emit_def)

lemma cookies_set_simps [simp]:
  "trace (cookies_set n v opts w) = trace w @ [CookieSet n v opts]"
  "jar (cookies_set n v opts w) = (jar w)(n \<mapsto> v)"
  by (simp_all add: cookies_set_def)

lemma cookies_delete_simps [simp]:
  "trace (cookies_delete n opts w) = trace w @ [CookieDelete n opts]"
  "jar (cookies_delete n opts w) = (jar w)(n := None)"
  by (simp_all add: cookies_delete_def)

lemma new_events_self [simp]: "new_events w w = []"
  by (simp add: new_events_def)

lemma suffix_new_events:
  "trace w' = trace w @ pre @ es \<Longrightarrow> suffix es (new_events w w')"
  by (simp add: new_events_def suffix_def)

lemma no_cookie_ops_filter:
  assumes "filter is_cookie_op es = []"
  shows "filter (sets_cookie n) es = []" "filter (touches n) es = []"
proof -
  have "\<And>e. e \<in> set es \<Longrightarrow> \<not> is_cookie_op e"
    using assms by (simp add: filter_empty_conv)
  moreover have "\<And>e. sets_cookie n e \<Longrightarrow> is_cookie_op e" "\<And>e. touches n e \<Longrightarrow> is_cookie_op e"
    subgoal for e by (cases e) simp_all
    subgoal for e by (cases e) simp_all
    done
  ultimately show "filter (sets_cookie n) es = []" "filter (touches n) es = []"
    by (auto simp: filter_empty_conv)
qed

section \<open>What the result handlers do\<close>

lemma handleAuthFailure_fst [simp]: "fst (handleAuthFailure names opts w) = Fail"
  by (simp add: handleAuthFailure_def Let_def)

lemma handleAuthFailure_trace [simp]:
  "trace (snd (handleAuthFailure names opts w)) = trace w @
     [CookieDelete (accessToken names) (withExpiry opts 0),
      CookieDelete (refreshToken names) (withExpiry opts 0),
      CookieDelete (codeVerifier names) (withExpiry opts 0),
      CookieDelete (authSessionId names) (withExpiry opts 0),
      CookieDelete (tempSessionId names) (withExpiry opts 0)]"
  by (simp add: handleAuthFailure_def Let_def)

lemma handleAuthFailure_jar [simp]:
  "jar (snd (handleAuthFailure names opts w)) =
     (jar w)(accessToken names := None, refreshToken names := None, codeVerifier names := None,
             authSessionId names := None, tempSessionId names := None)"
  by (simp add: handleAuthFailure_def Let_def)

lemma handleAuthSuccess_fst:
  "fst (handleAuthSuccess env names opts tok rt ex w) =
     (case jwtDecode env tok of
        None \<Rightarrow> Inl InvalidTokenError
      | Some claims \<Rightarrow> Inr (Success claims tok))"
  by (simp add: handleAuthSuccess_def decodeAccessToken_def Let_def split: option.splits)

lemma handleAuthSuccess_trace:
  "trace (snd (handleAuthSuccess env names opts tok rt ex w)) = trace w @
     (case truthy_num ex of
        Some n \<Rightarrow> [CookieSet (accessToken names) tok (withExpiry opts n)]
      | None \<Rightarrow> []) @
     (case truthy_str rt of
        Some r \<Rightarrow> [CookieSet (refreshToken names) r (withExpiry opts REFRESH_TOKEN_EXPIRY)]
      | None \<Rightarrow> []) @
     [CookieDelete (codeVerifier names) (withExpiry opts 0)]"
  by (simp add: handleAuthSuccess_def decodeAccessToken_def Let_def split: option.splits)

lemma handleAuthSuccess_jar:
  "jar (snd (handleAuthSuccess env names opts tok rt ex w)) =
     (let j1 = (case truthy_num ex of
                  Some n \<Rightarrow> (jar w)(accessToken names \<mapsto> tok)
                | None \<Rightarrow> jar w);
          j2 = (case truthy_str rt of
                  Some r \<Rightarrow> j1(refreshToken names \<mapsto> r)
                | None \<Rightarrow> j1)
      in j2(codeVerifier names := None))"
  by (simp add: handleAuthSuccess_def decodeAccessToken_def Let_def split: option.splits)

lemma handleSdsAuthFailure_fst [simp]: "fst (handleSdsAuthFailure names opts w) = Fail"
  by (simp add: handleSdsAuthFailure_def Let_def)

lemma handleSdsAuthFailure_trace [simp]:
  "trace (snd (handleSdsAuthFailure names opts w)) = trace w @
     [CookieDelete (authSessionId names) (withExpiry opts 0),
      CookieDelete (tempSessionId names) (withExpiry opts 0)]"
  by (simp add: handleSdsAuthFailure_def Let_def)

lemma handleSdsAuthFailure_jar [simp]:
  "jar (snd (handleSdsAuthFailure names opts w)) =
     (jar w)(authSessionId names := None, tempSessionId names := None)"
  by (simp add: handleSdsAuthFailure_def Let_def)

lemma handleSdsAuthSuccess_fst:
  "fst (handleSdsAuthSuccess env names opts tok sid w) =
     (case jwtDecode env tok of
        None \<Rightarrow> Inl InvalidTokenError
      | Some claims \<Rightarrow> Inr (Success claims tok))"
  by (simp add: handleSdsAuthSuccess_def decodeAccessToken_def Let_def split: option.splits)

lemma handleSdsAuthSuccess_trace [simp]:
  "trace (snd (handleSdsAuthSuccess env names opts tok sid w)) = trace w @
     [CookieSet (authSessionId names) sid opts,
      CookieDelete (tempSessionId names) (withExpiry opts 0)]"
  by (simp add: handleSdsAuthSuccess_def decodeAccessToken_def Let_def split: option.splits)

lemma handleSdsAuthSuccess_jar [simp]:
  "jar (snd (handleSdsAuthSuccess env names opts tok sid w)) =
     (jar w)(authSessionId names \<mapsto> sid, tempSessionId names := None)"
  by (simp add: handleSdsAuthSuccess_def decodeAccessToken_def Let_def split: option.splits)

section \<open>The branches of the cookie-backed authenticator\<close>

text \<open>
  One case rule per function: every run is one of the listed branches, and each branch
  names the result and the state the run ends in.
\<close>

lemma validateAccessToken_cases [consumes 1, case_names valid rejected unusable]:
  assumes "validateAccessToken env a w = (b, w1)"
  obtains
    (valid) claims sub where "b" "jwtDecode env a = Some claims"
      "get_member claims ''sub'' = Some sub" "js_truthy (Some sub)"
      "fetchUserInfo env a sub = Inr ()" "w1 = emit (UserInfoCall a sub) w"
  | (rejected) claims sub e where "\<not> b" "jwtDecode env a = Some claims"
      "get_member claims ''sub'' = Some sub" "js_truthy (Some sub)"
      "fetchUserInfo env a sub = Inl e"
      "w1 = emit (Log LError ''Invalid access token detected'') (emit (UserInfoCall a sub) w)"
  | (unusable) "\<not> b" "w1 = emit (Log LError ''Invalid access token detected'') w"
  using assms
  by (cases "jwtDecode env a"; cases "the (jwtDecode env a)")
     (auto simp: validateAccessToken_def validateAccessToken_try_def
        split: option.splits sum.splits if_splits)

lemma doRefresh_cases [consumes 1, case_names granted rejected]:
  assumes "doRefresh env r names opts w = (res, w')"
  obtains
    (granted) tokens where "refreshTokenGrant env r = Inr tokens"
      "res = fst (handleAuthSuccess env names opts (access_token tokens) (refresh_token tokens)
         (expires_in tokens)
         (emit (Log LDebug ''Tokens refreshed successfully'')
           (emit (RefreshCall r)
             (emit (Log LDebug ''Attempting to refresh tokens...'') w))))"
      "w' = snd (handleAuthSuccess env names opts (access_token tokens) (refresh_token tokens)
         (expires_in tokens)
         (emit (Log LDebug ''Tokens refreshed successfully'')
           (emit (RefreshCall r)
             (emit (Log LDebug ''Attempting to refresh tokens...'') w))))"
  | (rejected) e where "refreshTokenGrant env r = Inl e" "res = Inr Fail"
      "w' = snd (handleAuthFailure names opts
         (emit (Log LDebug ''Token refresh failed'')
           (emit (Log LError ''Token refresh failed'')
             (emit (RefreshCall r)
               (emit (Log LDebug ''Attempting to refresh tokens...'') w)))))"
proof (cases "refreshTokenGrant env r")
  case (Inl e)
  with assms have "res = Inr Fail"
    "w' = snd (handleAuthFailure names opts
         (emit (Log LDebug ''Token refresh failed'')
           (emit (Log LError ''Token refresh failed'')
             (emit (RefreshCall r)
               (emit (Log LDebug ''Attempting to refresh tokens...'') w)))))"
    by (auto simp: doRefresh_def refreshTokens_def returned_def Let_def)
  with Inl show ?thesis by (rule rejected)
next
  case (Inr tokens)
  with assms have "handleAuthSuccess env names opts (access_token tokens) (refresh_token tokens)
         (expires_in tokens)
         (emit (Log LDebug ''Tokens refreshed successfully'')
           (emit (RefreshCall r)
             (emit (Log LDebug ''Attempting to refresh tokens...'') w))) = (res, w')"
    by (simp add: doRefresh_def refreshTokens_def Let_def)
  then have "res = fst (handleAuthSuccess env names opts (access_token tokens)
         (refresh_token tokens) (expires_in tokens)
         (emit (Log LDebug ''Tokens refreshed successfully'')
           (emit (RefreshCall r)
             (emit (Log LDebug ''Attempting to refresh tokens...'') w))))"
    "w' = snd (handleAuthSuccess env names opts (access_token tokens)
         (refresh_token tokens) (expires_in tokens)
         (emit (Log LDebug ''Tokens refreshed successfully'')
           (emit (RefreshCall r)
             (emit (Log LDebug ''Attempting to refresh tokens...'') w))))"
    by simp_all
  with Inr show ?thesis by (rule granted)
qed

lemma handleOidcCallback_catch_cases [consumes 1, case_names fatal invalid_grant other]:
  assumes "handleOidcCallback_catch err names opts w = (res, w')"
  obtains
    (fatal) "error_code err = Some ''unauthorized_client''"
      "res = Inl (Error ''Invalid client credentials'')" "w' = w"
  | (invalid_grant) "error_code err = Some ''invalid_grant''" "res = Inr Fail"
      "w' = snd (handleAuthFailure names opts
         (emit (Log LError ''OIDC callback failed'')
           (emit (Log LError ''Invalid grant - check cookie forwarding and PUBLIC_DOMAIN'') w)))"
  | (other) "error_code err \<noteq> Some ''unauthorized_client''"
      "error_code err \<noteq> Some ''invalid_grant''" "res = Inr Fail"
      "w' = snd (handleAuthFailure names opts (emit (Log LError ''OIDC callback failed'') w))"
  using assms
  by (auto simp: handleOidcCallback_catch_def returned_def split: if_splits)

lemma handleOidcCallback_cases
  [consumes 1, case_names no_verifier bad_url rejected granted undecodable]:
  assumes "handleOidcCallback env u origin verifier names opts w = (res, w')"
  obtains
    (no_verifier) "truthy_str verifier = None" "res = Inr Fail"
      "w' = snd (handleAuthFailure names opts
         (emit (Log LError ''No code verifier found for OIDC callback'') w))"
  | (bad_url) v where "truthy_str verifier = Some v"
      "newURL env (origin @ pathname u @ search u) = None" "res = Inl TypeError" "w' = w"
  | (rejected) v cb err where "truthy_str verifier = Some v"
      "newURL env (origin @ pathname u @ search u) = Some cb"
      "authorizationCodeGrant env cb v = Inl err"
      "handleOidcCallback_catch err names opts (emit (ExchangeCall cb v) w) = (res, w')"
  | (granted) v cb tokens claims where "truthy_str verifier = Some v"
      "newURL env (origin @ pathname u @ search u) = Some cb"
      "authorizationCodeGrant env cb v = Inr tokens"
      "jwtDecode env (access_token tokens) = Some claims"
      "res = Inr (Success claims (access_token tokens))"
      "w' = snd (handleAuthSuccess env names opts (access_token tokens) (refresh_token tokens)
         (expires_in tokens) (emit (ExchangeCall cb v) w))"
  | (undecodable) v cb tokens where "truthy_str verifier = Some v"
      "newURL env (origin @ pathname u @ search u) = Some cb"
      "authorizationCodeGrant env cb v = Inr tokens"
      "jwtDecode env (access_token tokens) = None"
      "res = Inr Fail"
      "w' = snd (handleAuthFailure names opts
         (emit (Log LError ''OIDC callback failed'')
           (snd (handleAuthSuccess env names opts (access_token tokens) (refresh_token tokens)
              (expires_in tokens) (emit (ExchangeCall cb v) w)))))"
proof (cases "truthy_str verifier")
  case None
  then show ?thesis using assms no_verifier
    by (simp add: handleOidcCallback_def returned_def)
next
  case (Some v)
  note v = this
  show ?thesis
  proof (cases "newURL env (origin @ pathname u @ search u)")
    case None
    then show ?thesis using assms v bad_url by (simp add: handleOidcCallback_def)
  next
    case (Some cb)
    note cb = this
    show ?thesis
    proof (cases "authorizationCodeGrant env cb v")
      case (Inl err)
      then show ?thesis using assms v cb rejected
        by (simp add: handleOidcCallback_def Let_def)
    next
      case (Inr tokens)
      note tk = this
      obtain r2 w2 where hs: "handleAuthSuccess env names opts (access_token tokens)
          (refresh_token tokens) (expires_in tokens) (emit (ExchangeCall cb v) w) = (r2, w2)"
        by (rule prod.exhaust)
      then have w2: "w2 = snd (handleAuthSuccess env names opts (access_token tokens)
          (refresh_token tokens) (expires_in tokens) (emit (ExchangeCall cb v) w))"
        by simp
      have r2: "r2 = (case jwtDecode env (access_token tokens) of
            None \<Rightarrow> Inl InvalidTokenError
          | Some claims \<Rightarrow> Inr (Success claims (access_token tokens)))"
        using hs handleAuthSuccess_fst[of env names opts "access_token tokens"
            "refresh_token tokens" "expires_in tokens" "emit (ExchangeCall cb v) w"]
        by simp
      show ?thesis
      proof (cases "jwtDecode env (access_token tokens)")
        case None
        with assms v cb tk hs r2
        have "returned (handleAuthFailure names opts
            (emit (Log LError ''OIDC callback failed'') w2)) = (res, w')"
          by (simp add: handleOidcCallback_def handleOidcCallback_catch_def Let_def)
        then have "res = Inr Fail"
          "w' = snd (handleAuthFailure names opts (emit (Log LError ''OIDC callback failed'') w2))"
          by (auto simp: returned_def)
        then show ?thesis using v cb tk None undecodable[of v cb tokens] unfolding w2 by simp
      next
        case (Some claims)
        with assms v cb tk hs r2
        have "res = Inr (Success claims (access_token tokens))" "w' = w2"
          by (simp_all add: handleOidcCallback_def Let_def)
        then show ?thesis using v cb tk Some granted[of v cb tokens claims] unfolding w2 by simp
      qed
    qed
  qed
qed

lemma authenticate_cases
  [consumes 1, case_names valid invalid refresh_only callback none]:
  assumes "authenticate env u origin names opts w = (res, w')"
  obtains
    (valid) a r w1 where "truthy_str (cookies_get w (accessToken names)) = Some a"
      "truthy_str (cookies_get w (refreshToken names)) = Some r"
      "validateAccessToken env a w = (True, w1)"
      "res = fst (handleAuthSuccess env names opts a None None w1)"
      "w' = snd (handleAuthSuccess env names opts a None None w1)"
  | (invalid) a r w1 where "truthy_str (cookies_get w (accessToken names)) = Some a"
      "truthy_str (cookies_get w (refreshToken names)) = Some r"
      "validateAccessToken env a w = (False, w1)"
      "doRefresh env r names opts w1 = (res, w')"
  | (refresh_only) r where "truthy_str (cookies_get w (accessToken names)) = None"
      "truthy_str (cookies_get w (refreshToken names)) = Some r"
      "doRefresh env r names opts w = (res, w')"
  | (callback) "truthy_str (cookies_get w (refreshToken names)) = None" "isOidcCallback u"
      "handleOidcCallback env u origin (cookies_get w (codeVerifier names)) names opts w
         = (res, w')"
  | (none) "truthy_str (cookies_get w (refreshToken names)) = None" "\<not> isOidcCallback u"
      "res = Inr Fail" "w' = snd (handleAuthFailure names opts w)"
proof (cases "truthy_str (cookies_get w (refreshToken names))")
  case None
  show ?thesis
  proof (cases "isOidcCallback u")
    case True
    with assms None have "handleOidcCallback env u origin (cookies_get w (codeVerifier names))
        names opts w = (res, w')"
      by (simp add: authenticate_def Let_def split: option.splits)
    with None True show ?thesis by (rule callback)
  next
    case False
    with assms None have "res = Inr Fail" "w' = snd (handleAuthFailure names opts w)"
      by (auto simp add: authenticate_def Let_def returned_def split: option.splits)
    with None False show ?thesis by (rule none)
  qed
next
  case (Some r)
  note r = this
  show ?thesis
  proof (cases "truthy_str (cookies_get w (accessToken names))")
    case None
    with assms r have "doRefresh env r names opts w = (res, w')"
      by (simp add: authenticate_def Let_def)
    with None r show ?thesis by (rule refresh_only)
  next
    case (Some a)
    obtain b w1 where val: "validateAccessToken env a w = (b, w1)"
      by (rule prod.exhaust)
    show ?thesis
    proof (cases b)
      case True
      with assms r Some val
      have hs: "handleAuthSuccess env names opts a None None w1 = (res, w')"
        by (simp add: authenticate_def Let_def)
      then have "res = fst (handleAuthSuccess env names opts a None None w1)"
        "w' = snd (handleAuthSuccess env names opts a None None w1)"
        by simp_all
      with Some r val True show ?thesis using valid[of a r w1] by simp
    next
      case False
      with assms r Some val
      have "doRefresh env r names opts w1 = (res, w')"
        by (simp add: authenticate_def Let_def)
      with Some r val False show ?thesis using invalid[of a r w1] by simp
    qed
  qed
qed

text \<open>Which calls each part of a run adds to the trace.\<close>

lemma validate_no_exchange:
  assumes "validateAccessToken env a w = (b, w1)"
  shows "jar w1 = jar w \<and> (\<exists>es. trace w1 = trace w @ es \<and> filter is_exchange es = []
      \<and> filter is_cookie_op es = [] \<and> filter is_refresh es = [])"
  using assms by (cases rule: validateAccessToken_cases) simp_all

lemma doRefresh_no_exchange:
  assumes "doRefresh env r names opts w = (res, w')"
  shows "\<exists>es. trace w' = trace w @ es \<and> filter is_exchange es = []
      \<and> filter is_refresh es = [RefreshCall r] \<and> filter is_userinfo es = []"
  using assms
  by (cases rule: doRefresh_cases)
     (simp_all add: handleAuthSuccess_trace split: option.splits)

lemma catch_no_exchange:
  assumes "handleOidcCallback_catch err names opts w = (res, w')"
  shows "\<exists>es. trace w' = trace w @ es \<and> filter is_exchange es = []
      \<and> filter is_refresh es = [] \<and> filter is_userinfo es = []"
  using assms by (cases rule: handleOidcCallback_catch_cases) simp_all

lemma handleOidcCallback_calls:
  assumes "handleOidcCallback env u origin verifier names opts w = (res, w')"
  shows "filter is_refresh (new_events w w') = [] \<and> filter is_userinfo (new_events w w') = []
    \<and> filter is_exchange (new_events w w') =
        (case truthy_str verifier of
           None \<Rightarrow> []
         | Some v \<Rightarrow>
             (case newURL env (origin @ pathname u @ search u) of
                None \<Rightarrow> []
              | Some cb \<Rightarrow> [ExchangeCall cb v]))"
  using assms
proof (cases rule: handleOidcCallback_cases)
  case (rejected v cb err)
  from catch_no_exchange[OF rejected(4)] obtain es where
    "trace w' = trace w @ ExchangeCall cb v # es" "filter is_exchange es = []"
    "filter is_refresh es = []" "filter is_userinfo es = []"
    by (elim exE conjE) simp
  with rejected(1,2) show ?thesis by (simp add: new_events_def)
qed (simp_all add: new_events_def handleAuthSuccess_trace split: option.splits)

text \<open>
  A run in which the code exchange was called and rejected ends in the \<open>catch\<close> block of
  the callback handler, entered right after the call.
\<close>

lemma exchange_rejected:
  assumes run: "authenticate env u origin names opts w = (res, w')"
    and called: "ExchangeCall cb v \<in> set (new_events w w')"
    and rejects: "authorizationCodeGrant env cb v = Inl err"
  shows "handleOidcCallback_catch err names opts (emit (ExchangeCall cb v) w) = (res, w')"
proof -
  have called': "ExchangeCall cb v \<in> set (filter is_exchange (new_events w w'))"
    using called by simp
  from run show ?thesis
  proof (cases rule: authenticate_cases)
    case (valid a r w1)
    from validate_no_exchange[OF valid(3)] obtain es where
      "trace w1 = trace w @ es" "filter is_exchange es = []" by (elim exE conjE)
    then have "filter is_exchange (new_events w w') = []"
      using valid(5) by (simp add: new_events_def handleAuthSuccess_trace)
    with called' have False by simp
    then show ?thesis ..
  next
    case (invalid a r w1)
    from validate_no_exchange[OF invalid(3)] obtain es where
      es: "trace w1 = trace w @ es" "filter is_exchange es = []" by (elim exE conjE)
    from doRefresh_no_exchange[OF invalid(4)] obtain es' where
      "trace w' = trace w1 @ es'" "filter is_exchange es' = []" by (elim exE conjE)
    with es have "filter is_exchange (new_events w w') = []"
      by (simp add: new_events_def)
    with called' have False by simp
    then show ?thesis ..
  next
    case (refresh_only r)
    from doRefresh_no_exchange[OF refresh_only(3)] obtain es' where
      "trace w' = trace w @ es'" "filter is_exchange es' = []" by (elim exE conjE)
    then have "filter is_exchange (new_events w w') = []"
      by (simp add: new_events_def)
    with called' have False by simp
    then show ?thesis ..
  next
    case callback
    from handleOidcCallback_calls[OF callback(3)]
    have calls: "filter is_exchange (new_events w w') =
        (case truthy_str (cookies_get w (codeVerifier names)) of
           None \<Rightarrow> []
         | Some v \<Rightarrow>
             (case newURL env (origin @ pathname u @ search u) of
                None \<Rightarrow> []
              | Some cb \<Rightarrow> [ExchangeCall cb v]))"
      by (elim conjE)
    from callback(3) show ?thesis
    proof (cases rule: handleOidcCallback_cases)
      case no_verifier
      with calls called' have False by simp
      then show ?thesis ..
    next
      case (bad_url v')
      with calls called' have False by simp
      then show ?thesis ..
    next
      case (rejected v' cb' err')
      with calls called' have "cb = cb'" "v = v'" by simp_all
      with rejected rejects show ?thesis by simp
    next
      case (granted v' cb' tokens claims)
      with calls called' have "cb = cb'" "v = v'" by simp_all
      with granted rejects show ?thesis by simp
    next
      case (undecodable v' cb' tokens)
      with calls called' have "cb = cb'" "v = v'" by simp_all
      with undecodable rejects show ?thesis by simp
    qed
  next
    case none
    then have "filter is_exchange (new_events w w') = []" by (simp add: new_events_def)
    with called' have False by simp
    then show ?thesis ..
  qed
qed

text \<open>A failure result comes out of \<open>handleAuthFailure\<close>, run as the last step.\<close>

lemma doRefresh_Fail:
  assumes "doRefresh env r names opts w = (Inr Fail, w')"
  shows "\<exists>w0 pre. w' = snd (handleAuthFailure names opts w0) \<and> trace w0 = trace w @ pre"
  using assms
proof (cases rule: doRefresh_cases)
  case (granted tokens)
  then have False by (simp add: handleAuthSuccess_fst split: option.splits)
  then show ?thesis ..
next
  case (rejected e)
  show ?thesis
    by (rule exI, rule exI, rule conjI, rule rejected(3)) simp
qed

lemma handleOidcCallback_Fail:
  assumes "handleOidcCallback env u origin verifier names opts w = (Inr Fail, w')"
  shows "\<exists>w0 pre. w' = snd (handleAuthFailure names opts w0) \<and> trace w0 = trace w @ pre"
  using assms
proof (cases rule: handleOidcCallback_cases)
  case no_verifier
  show ?thesis by (rule exI, rule exI, rule conjI, rule no_verifier(3)) simp
next
  case (bad_url v)
  then show ?thesis by simp
next
  case (rejected v cb err)
  from rejected(4) show ?thesis
  proof (cases rule: handleOidcCallback_catch_cases)
    case fatal
    then show ?thesis by simp
  next
    case invalid_grant
    show ?thesis by (rule exI, rule exI, rule conjI, rule invalid_grant(3)) simp
  next
    case other
    show ?thesis by (rule exI, rule exI, rule conjI, rule other(4)) simp
  qed
next
  case (granted v cb tokens claims)
  then show ?thesis by simp
next
  case (undecodable v cb tokens)
  show ?thesis
    by (rule exI, rule exI, rule conjI, rule undecodable(6))
       (simp add: handleAuthSuccess_trace)
qed

lemma authenticate_Fail:
  assumes "authenticate env u origin names opts w = (Inr Fail, w')"
  shows "\<exists>w0 pre. w' = snd (handleAuthFailure names opts w0) \<and> trace w0 = trace w @ pre"
  using assms
proof (cases rule: authenticate_cases)
  case (valid a r w1)
  then have False by (simp add: handleAuthSuccess_fst split: option.splits)
  then show ?thesis ..
next
  case (invalid a r w1)
  from validate_no_exchange[OF invalid(3)] obtain es where es: "trace w1 = trace w @ es"
    by (elim exE conjE)
  from doRefresh_Fail[OF invalid(4)] obtain w0 pre where
    "w' = snd (handleAuthFailure names opts w0)" "trace w0 = trace w1 @ pre"
    by (elim exE conjE)
  with es have "w' = snd (handleAuthFailure names opts w0) \<and> trace w0 = trace w @ es @ pre"
    by simp
  then show ?thesis by (intro exI)
next
  case (refresh_only r)
  then show ?thesis by (intro doRefresh_Fail)
next
  case callback
  then show ?thesis by (intro handleOidcCallback_Fail)
next
  case none
  show ?thesis by (rule exI, rule exI[of _ "[]"], rule conjI, rule none(4)) simp
qed

lemma failure_leaves:
  assumes "w' = snd (handleAuthFailure names opts w0)" "trace w0 = trace w @ pre"
  shows "suffix (deletions opts (all_slots names)) (new_events w w')
    \<and> map (jar w') (all_slots names) = replicate 5 None"
proof -
  have "trace w' = trace w @ pre @ deletions opts (all_slots names)"
    using assms by (simp add: deletions_def all_slots_def)
  then have "suffix (deletions opts (all_slots names)) (new_events w w')"
    by (rule suffix_new_events)
  moreover have "map (jar w') (all_slots names) = replicate 5 None"
    using assms(1) by (simp add: all_slots_def numeral_eq_Suc)
  ultimately show ?thesis ..
qed

text \<open>The refresh branches: validation (when an access token is present) makes no cookie
  operation, and the refresh runs from the state it leaves.\<close>

lemma authenticate_refresh:
  assumes refresh: "truthy_str (cookies_get w (refreshToken names)) = Some r"
    and stale: "case truthy_str (cookies_get w (accessToken names)) of
                  None \<Rightarrow> True
                | Some a \<Rightarrow> \<not> fst (validateAccessToken env a w)"
  shows "\<exists>w1 es. jar w1 = jar w \<and> trace w1 = trace w @ es
      \<and> filter is_cookie_op es = [] \<and> filter is_exchange es = [] \<and> filter is_refresh es = []
      \<and> (truthy_str (cookies_get w (accessToken names)) = None \<longrightarrow> es = [])
      \<and> authenticate env u origin names opts w = doRefresh env r names opts w1"
proof (cases "truthy_str (cookies_get w (accessToken names))")
  case None
  then have "authenticate env u origin names opts w = doRefresh env r names opts w"
    using refresh by (simp add: authenticate_def Let_def)
  then show ?thesis by (intro exI[of _ w] exI[of _ "[]"]) simp
next
  case (Some a)
  obtain b w1 where val: "validateAccessToken env a w = (b, w1)"
    by (rule prod.exhaust)
  with stale Some have b: "\<not> b" by simp
  from validate_no_exchange[OF val] obtain es where es: "jar w1 = jar w"
    "trace w1 = trace w @ es" "filter is_exchange es = []" "filter is_cookie_op es = []"
    "filter is_refresh es = []"
    by (elim exE conjE)
  have "authenticate env u origin names opts w = doRefresh env r names opts w1"
    using refresh Some val b by (simp add: authenticate_def Let_def)
  with es Some show ?thesis by (intro exI[of _ w1] exI[of _ es]) simp
qed

lemma doRefresh_granted:
  assumes "refreshTokenGrant env r = Inr tokens"
  shows "doRefresh env r names opts w =
     handleAuthSuccess env names opts (access_token tokens) (refresh_token tokens)
       (expires_in tokens)
       (emit (Log LDebug ''Tokens refreshed successfully'')
         (emit (RefreshCall r) (emit (Log LDebug ''Attempting to refresh tokens...'') w)))"
  using assms by (simp add: doRefresh_def refreshTokens_def Let_def)

lemma authenticate_exchange_granted:
  assumes refresh: "truthy_str (cookies_get w (refreshToken names)) = None"
    and cb: "isOidcCallback u"
    and verifier: "truthy_str (cookies_get w (codeVerifier names)) = Some v"
    and url: "newURL env (origin @ pathname u @ search u) = Some cb"
    and grant: "authorizationCodeGrant env cb v = Inr tokens"
    and decodes: "jwtDecode env (access_token tokens) = Some claims"
  shows "authenticate env u origin names opts w =
     handleAuthSuccess env names opts (access_token tokens) (refresh_token tokens)
       (expires_in tokens) (emit (ExchangeCall cb v) w)"
proof -
  have run: "authenticate env u origin names opts w =
      handleOidcCallback env u origin (cookies_get w (codeVerifier names)) names opts w"
    using refresh cb by (simp add: authenticate_def Let_def split: option.splits)
  obtain res w' where rw: "handleOidcCallback env u origin (cookies_get w (codeVerifier names))
      names opts w = (res, w')"
    by (rule prod.exhaust)
  then have "res = fst (handleAuthSuccess env names opts (access_token tokens)
        (refresh_token tokens) (expires_in tokens) (emit (ExchangeCall cb v) w))
      \<and> w' = snd (handleAuthSuccess env names opts (access_token tokens)
        (refresh_token tokens) (expires_in tokens) (emit (ExchangeCall cb v) w))"
    using verifier url grant decodes
    by (cases rule: handleOidcCallback_cases) (simp_all add: handleAuthSuccess_fst)
  then show ?thesis unfolding run rw by simp
qed

lemma handleAuthSuccess_keeps_access:
  assumes expiry: "truthy_num ex = None"
    and distinct: "accessToken names \<noteq> refreshToken names"
      "accessToken names \<noteq> codeVerifier names"
  shows "filter (touches (accessToken names))
      (new_events w (snd (handleAuthSuccess env names opts tok rt ex w))) = []"
    "jar (snd (handleAuthSuccess env names opts tok rt ex w)) (accessToken names)
      = jar w (accessToken names)"
  using assms
  by (simp_all add: new_events_def handleAuthSuccess_trace handleAuthSuccess_jar Let_def
      split: option.splits)

lemma authenticate_valid:
  assumes access: "truthy_str (cookies_get w (accessToken names)) = Some a"
    and refresh: "truthy_str (cookies_get w (refreshToken names)) = Some r"
    and valid: "fst (validateAccessToken env a w)"
  shows "\<exists>claims sub. jwtDecode env a = Some claims \<and> get_member claims ''sub'' = Some sub
      \<and> fst (authenticate env u origin names opts w) = Inr (Success claims a)
      \<and> new_events w (snd (authenticate env u origin names opts w)) =
          [UserInfoCall a sub, CookieDelete (codeVerifier names) (withExpiry opts 0)]
      \<and> jar (snd (authenticate env u origin names opts w)) = (jar w)(codeVerifier names := None)"
proof -
  obtain b w1 where val: "validateAccessToken env a w = (b, w1)"
    by (rule prod.exhaust)
  with valid have b: "b" by simp
  from val b obtain claims sub where cs: "jwtDecode env a = Some claims"
    "get_member claims ''sub'' = Some sub" "w1 = emit (UserInfoCall a sub) w"
    by (cases rule: validateAccessToken_cases) simp_all
  have run: "authenticate env u origin names opts w
      = handleAuthSuccess env names opts a None None w1"
    using access refresh val b by (simp add: authenticate_def Let_def)
  have "fst (authenticate env u origin names opts w) = Inr (Success claims a)"
    unfolding run using cs(1) by (simp add: handleAuthSuccess_fst)
  moreover have "new_events w (snd (authenticate env u origin names opts w)) =
      [UserInfoCall a sub, CookieDelete (codeVerifier names) (withExpiry opts 0)]"
    unfolding run cs(3) by (simp add: new_events_def handleAuthSuccess_trace)
  moreover have "jar (snd (authenticate env u origin names opts w))
      = (jar w)(codeVerifier names := None)"
    unfolding run cs(3) by (simp add: handleAuthSuccess_jar)
  ultimately show ?thesis using cs(1,2) by (intro exI conjI)
qed

section \<open>The branches of the store-backed authenticator\<close>

lemma handleSdsOidcCallback_catch_cases [consumes 1, case_names fatal invalid_grant other]:
  assumes "handleSdsOidcCallback_catch err names opts w = (res, w')"
  obtains
    (fatal) "error_code err = Some ''unauthorized_client''"
      "res = Inl (Error ''Invalid client credentials'')" "w' = w"
  | (invalid_grant) "error_code err = Some ''invalid_grant''" "res = Inr Fail"
      "w' = snd (handleSdsAuthFailure names opts
         (emit (Log LError ''SDS OIDC callback failed'')
           (emit (Log LError ''Invalid grant - check cookie forwarding'') w)))"
  | (other) "error_code err \<noteq> Some ''unauthorized_client''"
      "error_code err \<noteq> Some ''invalid_grant''" "res = Inr Fail"
      "w' = snd (handleSdsAuthFailure names opts
         (emit (Log LError ''SDS OIDC callback failed'') w))"
  using assms
  by (auto simp: handleSdsOidcCallback_catch_def returned_def split: if_splits)

lemma handleSdsOidcCallback_cases
  [consumes 1, case_names no_temp no_verifier bad_url rejected store_rejected granted
     undecodable]:
  assumes "handleSdsOidcCallback env sds u origin names opts w = (res, w')"
  obtains
    (no_temp) "truthy_str (cookies_get w (tempSessionId names)) = None" "res = Inr Fail"
      "w' = snd (handleSdsAuthFailure names opts
         (emit (Log LWarn ''No temp session ID for OIDC callback'') w))"
  | (no_verifier) tempId e where
      "truthy_str (cookies_get w (tempSessionId names)) = Some tempId"
      "tempSessionGet sds tempId CODE_VERIFIER = Inl e" "res = Inr Fail"
      "w' = snd (handleSdsAuthFailure names opts
         (emit (Log LWarn ''Failed to retrieve code verifier from SDS'')
           (emit (SdsTempGet tempId CODE_VERIFIER) w)))"
  | (bad_url) tempId v where
      "truthy_str (cookies_get w (tempSessionId names)) = Some tempId"
      "tempSessionGet sds tempId CODE_VERIFIER = Inr v"
      "newURL env (origin @ pathname u @ search u) = None" "res = Inl TypeError"
      "w' = emit (SdsTempGet tempId CODE_VERIFIER) w"
  | (rejected) tempId v cb err where
      "truthy_str (cookies_get w (tempSessionId names)) = Some tempId"
      "tempSessionGet sds tempId CODE_VERIFIER = Inr v"
      "newURL env (origin @ pathname u @ search u) = Some cb"
      "authorizationCodeGrant env cb v = Inl err"
      "handleSdsOidcCallback_catch err names opts
         (emit (ExchangeCall cb v) (emit (SdsTempGet tempId CODE_VERIFIER) w)) = (res, w')"
  | (store_rejected) tempId v cb tokens err where
      "truthy_str (cookies_get w (tempSessionId names)) = Some tempId"
      "tempSessionGet sds tempId CODE_VERIFIER = Inr v"
      "newURL env (origin @ pathname u @ search u) = Some cb"
      "authorizationCodeGrant env cb v = Inr tokens"
      "authSessionNew sds (access_token tokens) (refresh_token tokens) = Inl err"
      "handleSdsOidcCallback_catch err names opts
         (emit (SdsAuthNew (access_token tokens) (refresh_token tokens))
           (emit (ExchangeCall cb v) (emit (SdsTempGet tempId CODE_VERIFIER) w))) = (res, w')"
  | (granted) tempId v cb tokens newId claims where
      "truthy_str (cookies_get w (tempSessionId names)) = Some tempId"
      "tempSessionGet sds tempId CODE_VERIFIER = Inr v"
      "newURL env (origin @ pathname u @ search u) = Some cb"
      "authorizationCodeGrant env cb v = Inr tokens"
      "authSessionNew sds (access_token tokens) (refresh_token tokens) = Inr newId"
      "jwtDecode env (access_token tokens) = Some claims"
      "res = Inr (Success claims (access_token tokens))"
      "w' = snd (handleSdsAuthSuccess env names opts (access_token tokens) newId
         (emit (SdsAuthNew (access_token tokens) (refresh_token tokens))
           (emit (ExchangeCall cb v) (emit (SdsTempGet tempId CODE_VERIFIER) w))))"
  | (undecodable) tempId v cb tokens newId where
      "truthy_str (cookies_get w (tempSessionId names)) = Some tempId"
      "tempSessionGet sds tempId CODE_VERIFIER = Inr v"
      "newURL env (origin @ pathname u @ search u) = Some cb"
      "authorizationCodeGrant env cb v = Inr tokens"
      "authSessionNew sds (access_token tokens) (refresh_token tokens) = Inr newId"
      "jwtDecode env (access_token tokens) = None"
      "res = Inr Fail"
      "w' = snd (handleSdsAuthFailure names opts
         (emit (Log LError ''SDS OIDC callback failed'')
           (snd (handleSdsAuthSuccess env names opts (access_token tokens) newId
             (emit (SdsAuthNew (access_token tokens) (refresh_token tokens))
               (emit (ExchangeCall cb v) (emit (SdsTempGet tempId CODE_VERIFIER) w)))))))"
proof (cases "truthy_str (cookies_get w (tempSessionId names))")
  case None
  with assms have "res = Inr Fail"
    "w' = snd (handleSdsAuthFailure names opts
         (emit (Log LWarn ''No temp session ID for OIDC callback'') w))"
    by (auto simp add: handleSdsOidcCallback_def returned_def)
  with None show ?thesis by (rule no_temp)
next
  case (Some tempId)
  note t = this
  show ?thesis
  proof (cases "tempSessionGet sds tempId CODE_VERIFIER")
    case (Inl e)
    with assms t have "res = Inr Fail"
      "w' = snd (handleSdsAuthFailure names opts
         (emit (Log LWarn ''Failed to retrieve code verifier from SDS'')
           (emit (SdsTempGet tempId CODE_VERIFIER) w)))"
      by (auto simp add: handleSdsOidcCallback_def returned_def Let_def)
    with t Inl show ?thesis by (rule no_verifier)
  next
    case (Inr v)
    note v = this
    show ?thesis
    proof (cases "newURL env (origin @ pathname u @ search u)")
      case None
      with assms t v have "res = Inl TypeError" "w' = emit (SdsTempGet tempId CODE_VERIFIER) w"
        by (auto simp add: handleSdsOidcCallback_def Let_def)
      with t v None show ?thesis by (rule bad_url)
    next
      case (Some cb)
      note cb = this
      show ?thesis
      proof (cases "authorizationCodeGrant env cb v")
        case (Inl err)
        with assms t v cb have "handleSdsOidcCallback_catch err names opts
           (emit (ExchangeCall cb v) (emit (SdsTempGet tempId CODE_VERIFIER) w)) = (res, w')"
          by (simp add: handleSdsOidcCallback_def Let_def)
        with t v cb Inl show ?thesis by (rule rejected)
      next
        case (Inr tokens)
        note tk = this
        show ?thesis
        proof (cases "authSessionNew sds (access_token tokens) (refresh_token tokens)")
          case (Inl err)
          with assms t v cb tk have "handleSdsOidcCallback_catch err names opts
             (emit (SdsAuthNew (access_token tokens) (refresh_token tokens))
               (emit (ExchangeCall cb v) (emit (SdsTempGet tempId CODE_VERIFIER) w)))
             = (res, w')"
            by (simp add: handleSdsOidcCallback_def Let_def)
          with t v cb tk Inl show ?thesis by (rule store_rejected)
        next
          case (Inr newId)
          note nid = this
          define W where "W = emit (SdsAuthNew (access_token tokens) (refresh_token tokens))
               (emit (ExchangeCall cb v) (emit (SdsTempGet tempId CODE_VERIFIER) w))"
          obtain r2 w2 where hs:
            "handleSdsAuthSuccess env names opts (access_token tokens) newId W = (r2, w2)"
            by (rule prod.exhaust)
          then have w2: "w2 = snd (handleSdsAuthSuccess env names opts (access_token tokens)
              newId W)"
            by simp
          have r2: "r2 = (case jwtDecode env (access_token tokens) of
                None \<Rightarrow> Inl InvalidTokenError
              | Some claims \<Rightarrow> Inr (Success claims (access_token tokens)))"
            using hs handleSdsAuthSuccess_fst[of env names opts "access_token tokens" newId W]
            by simp
          show ?thesis
          proof (cases "jwtDecode env (access_token tokens)")
            case None
            with assms t v cb tk nid hs r2
            have "returned (handleSdsAuthFailure names opts
                (emit (Log LError ''SDS OIDC callback failed'') w2)) = (res, w')"
              by (simp add: handleSdsOidcCallback_def handleSdsOidcCallback_catch_def Let_def
                  W_def)
            then have "res = Inr Fail"
              "w' = snd (handleSdsAuthFailure names opts
                 (emit (Log LError ''SDS OIDC callback failed'') w2))"
              by (auto simp: returned_def)
            then show ?thesis using t v cb tk nid None undecodable[of tempId v cb tokens newId]
              unfolding w2 W_def by simp
          next
            case (Some claims)
            with assms t v cb tk nid hs r2
            have "res = Inr (Success claims (access_token tokens))" "w' = w2"
              by (simp_all add: handleSdsOidcCallback_def Let_def W_def)
            then show ?thesis
              using t v cb tk nid Some granted[of tempId v cb tokens newId claims]
              unfolding w2 W_def by simp
          qed
        qed
      qed
    qed
  qed
qed

lemma authenticateWithSds_cases
  [consumes 1, case_names session_ok session_undecodable session_invalid callback none]:
  assumes "authenticateWithSds env sds u origin names opts w = (res, w')"
  obtains
    (session_ok) sid tok claims where
      "truthy_str (cookies_get w (authSessionId names)) = Some sid"
      "authSessionGetAccessToken sds sid = Inr tok" "jwtDecode env tok = Some claims"
      "res = Inr (Success claims tok)"
      "w' = snd (handleSdsAuthSuccess env names opts tok sid (emit (SdsGetAccessToken sid) w))"
  | (session_undecodable) sid tok where
      "truthy_str (cookies_get w (authSessionId names)) = Some sid"
      "authSessionGetAccessToken sds sid = Inr tok" "jwtDecode env tok = None"
      "res = Inr Fail"
      "w' = snd (handleSdsAuthFailure names opts
         (emit (Log LWarn ''Invalid SDS session'')
           (snd (handleSdsAuthSuccess env names opts tok sid
             (emit (SdsGetAccessToken sid) w)))))"
  | (session_invalid) sid e where
      "truthy_str (cookies_get w (authSessionId names)) = Some sid"
      "authSessionGetAccessToken sds sid = Inl e" "res = Inr Fail"
      "w' = snd (handleSdsAuthFailure names opts
         (emit (Log LWarn ''Invalid SDS session'') (emit (SdsGetAccessToken sid) w)))"
  | (callback) "truthy_str (cookies_get w (authSessionId names)) = None" "isOidcCallback u"
      "handleSdsOidcCallback env sds u origin names opts w = (res, w')"
  | (none) "truthy_str (cookies_get w (authSessionId names)) = None" "\<not> isOidcCallback u"
      "res = Inr Fail" "w' = snd (handleSdsAuthFailure names opts w)"
proof (cases "truthy_str (cookies_get w (authSessionId names))")
  case None
  show ?thesis
  proof (cases "isOidcCallback u")
    case True
    with assms None have "handleSdsOidcCallback env sds u origin names opts w = (res, w')"
      by (simp add: authenticateWithSds_def)
    with None True show ?thesis by (rule callback)
  next
    case False
    with assms None have "res = Inr Fail" "w' = snd (handleSdsAuthFailure names opts w)"
      by (auto simp add: authenticateWithSds_def returned_def)
    with None False show ?thesis by (rule none)
  qed
next
  case (Some sid)
  note sid = this
  show ?thesis
  proof (cases "authSessionGetAccessToken sds sid")
    case (Inl e)
    with assms sid have "res = Inr Fail"
      "w' = snd (handleSdsAuthFailure names opts
         (emit (Log LWarn ''Invalid SDS session'') (emit (SdsGetAccessToken sid) w)))"
      by (auto simp add: authenticateWithSds_def returned_def Let_def)
    with sid Inl show ?thesis by (rule session_invalid)
  next
    case (Inr tok)
    note tok = this
    obtain r2 w2 where hs: "handleSdsAuthSuccess env names opts tok sid
        (emit (SdsGetAccessToken sid) w) = (r2, w2)"
      by (rule prod.exhaust)
    then have w2: "w2 = snd (handleSdsAuthSuccess env names opts tok sid
        (emit (SdsGetAccessToken sid) w))"
      by simp
    have r2: "r2 = (case jwtDecode env tok of
          None \<Rightarrow> Inl InvalidTokenError
        | Some claims \<Rightarrow> Inr (Success claims tok))"
      using hs handleSdsAuthSuccess_fst[of env names opts tok sid
          "emit (SdsGetAccessToken sid) w"]
      by simp
    show ?thesis
    proof (cases "jwtDecode env tok")
      case None
      with assms sid tok hs r2
      have "returned (handleSdsAuthFailure names opts
          (emit (Log LWarn ''Invalid SDS session'') w2)) = (res, w')"
        by (simp add: authenticateWithSds_def Let_def)
      then have "res = Inr Fail"
        "w' = snd (handleSdsAuthFailure names opts (emit (Log LWarn ''Invalid SDS session'') w2))"
        by (auto simp: returned_def)
      then show ?thesis using sid tok None session_undecodable[of sid tok]
        unfolding w2 by simp
    next
      case (Some claims)
      with assms sid tok hs r2
      have "res = Inr (Success claims tok)" "w' = w2"
        by (simp_all add: authenticateWithSds_def Let_def)
      then show ?thesis using sid tok Some session_ok[of sid tok claims]
        unfolding w2 by simp
    qed
  qed
qed

lemma sds_catch_no_exchange:
  assumes "handleSdsOidcCallback_catch err names opts w = (res, w')"
  shows "\<exists>es. trace w' = trace w @ es \<and> filter is_exchange es = []
    \<and> filter (off_session names) es = []"
  using assms
  by (cases rule: handleSdsOidcCallback_catch_cases) (simp_all add: off_session_def)

lemma sds_exchange_rejected:
  assumes run: "authenticateWithSds env sds u origin names opts w = (res, w')"
    and called: "ExchangeCall cb v \<in> set (new_events w w')"
    and rejects: "authorizationCodeGrant env cb v = Inl err"
  shows "\<exists>tempId. handleSdsOidcCallback_catch err names opts
           (emit (ExchangeCall cb v) (emit (SdsTempGet tempId CODE_VERIFIER) w)) = (res, w')"
proof -
  have called': "ExchangeCall cb v \<in> set (filter is_exchange (new_events w w'))"
    using called by simp
  from run show ?thesis
  proof (cases rule: authenticateWithSds_cases)
    case (session_ok sid tok claims)
    then have False using called' by (simp add: new_events_def)
    then show ?thesis ..
  next
    case (session_undecodable sid tok)
    then have False using called' by (simp add: new_events_def)
    then show ?thesis ..
  next
    case (session_invalid sid e)
    then have False using called' by (simp add: new_events_def)
    then show ?thesis ..
  next
    case callback
    from callback(3) show ?thesis
    proof (cases rule: handleSdsOidcCallback_cases)
      case no_temp
      then have False using called' by (simp add: new_events_def)
      then show ?thesis ..
    next
      case (no_verifier tempId e)
      then have False using called' by (simp add: new_events_def)
      then show ?thesis ..
    next
      case (bad_url tempId v')
      then have False using called' by (simp add: new_events_def)
      then show ?thesis ..
    next
      case (rejected tempId v' cb' err')
      from sds_catch_no_exchange[OF rejected(5)] obtain es where
        "trace w' = trace w @ SdsTempGet tempId CODE_VERIFIER # ExchangeCall cb' v' # es"
        "filter is_exchange es = []"
        by (elim exE conjE) simp
      then have "filter is_exchange (new_events w w') = [ExchangeCall cb' v']"
        by (simp add: new_events_def)
      with called' have "cb = cb'" "v = v'" by simp_all
      with rejected rejects show ?thesis by auto
    next
      case (store_rejected tempId v' cb' tokens err')
      from sds_catch_no_exchange[OF store_rejected(6)] obtain es where
        "trace w' = trace w @ SdsTempGet tempId CODE_VERIFIER # ExchangeCall cb' v' #
            SdsAuthNew (access_token tokens) (refresh_token tokens) # es"
        "filter is_exchange es = []"
        by (elim exE conjE) simp
      then have "filter is_exchange (new_events w w') = [ExchangeCall cb' v']"
        by (simp add: new_events_def)
      with called' have "cb = cb'" "v = v'" by simp_all
      with store_rejected rejects show ?thesis by simp
    next
      case (granted tempId v' cb' tokens newId claims)
      then have "filter is_exchange (new_events w w') = [ExchangeCall cb' v']"
        by (simp add: new_events_def)
      with called' have "cb = cb'" "v = v'" by simp_all
      with granted rejects show ?thesis by simp
    next
      case (undecodable tempId v' cb' tokens newId)
      then have "filter is_exchange (new_events w w') = [ExchangeCall cb' v']"
        by (simp add: new_events_def)
      with called' have "cb = cb'" "v = v'" by simp_all
      with undecodable rejects show ?thesis by simp
    qed
  next
    case none
    then have False using called' by (simp add: new_events_def)
    then show ?thesis ..
  qed
qed

lemma sds_Fail:
  assumes "authenticateWithSds env sds u origin names opts w = (Inr Fail, w')"
  shows "\<exists>w0 pre. w' = snd (handleSdsAuthFailure names opts w0) \<and> trace w0 = trace w @ pre"
  using assms
proof (cases rule: authenticateWithSds_cases)
  case (session_ok sid tok claims)
  then show ?thesis by simp
next
  case (session_undecodable sid tok)
  show ?thesis by (rule exI, rule exI, rule conjI, rule session_undecodable(5)) simp
next
  case (session_invalid sid e)
  show ?thesis by (rule exI, rule exI, rule conjI, rule session_invalid(4)) simp
next
  case callback
  from callback(3) show ?thesis
  proof (cases rule: handleSdsOidcCallback_cases)
    case no_temp
    show ?thesis by (rule exI, rule exI, rule conjI, rule no_temp(3)) simp
  next
    case (no_verifier tempId e)
    show ?thesis by (rule exI, rule exI, rule conjI, rule no_verifier(4)) simp
  next
    case (bad_url tempId v)
    then show ?thesis by simp
  next
    case (rejected tempId v cb err)
    from rejected(5) show ?thesis
    proof (cases rule: handleSdsOidcCallback_catch_cases)
      case fatal
      then show ?thesis by simp
    next
      case invalid_grant
      show ?thesis by (rule exI, rule exI, rule conjI, rule invalid_grant(3)) simp
    next
      case other
      show ?thesis by (rule exI, rule exI, rule conjI, rule other(4)) simp
    qed
  next
    case (store_rejected tempId v cb tokens err)
    from store_rejected(6) show ?thesis
    proof (cases rule: handleSdsOidcCallback_catch_cases)
      case fatal
      then show ?thesis by simp
    next
      case invalid_grant
      show ?thesis by (rule exI, rule exI, rule conjI, rule invalid_grant(3)) simp
    next
      case other
      show ?thesis by (rule exI, rule exI, rule conjI, rule other(4)) simp
    qed
  next
    case (granted tempId v cb tokens newId claims)
    then show ?thesis by simp
  next
    case (undecodable tempId v cb tokens newId)
    show ?thesis by (rule exI, rule exI, rule conjI, rule undecodable(8)) simp
  qed
next
  case none
  show ?thesis by (rule exI, rule exI[of _ "[]"], rule conjI, rule none(4)) simp
qed

lemma sds_failure_leaves:
  assumes "w' = snd (handleSdsAuthFailure names opts w0)" "trace w0 = trace w @ pre"
  shows "suffix (deletions opts (session_slots names)) (new_events w w')
    \<and> map (jar w') (session_slots names) = replicate 2 None"
proof -
  have "trace w' = trace w @ pre @ deletions opts (session_slots names)"
    using assms by (simp add: deletions_def session_slots_def)
  then have "suffix (deletions opts (session_slots names)) (new_events w w')"
    by (rule suffix_new_events)
  moreover have "map (jar w') (session_slots names) = replicate 2 None"
    using assms(1) by (simp add: session_slots_def numeral_eq_Suc)
  ultimately show ?thesis ..
qed

lemma sds_cookie_ops:
  assumes "authenticateWithSds env sds u origin names opts w = (res, w')"
  shows "filter (off_session names) (new_events w w') = []"
  using assms
proof (cases rule: authenticateWithSds_cases)
  case callback
  from callback(3) show ?thesis
  proof (cases rule: handleSdsOidcCallback_cases)
    case (rejected tempId v cb err)
    from sds_catch_no_exchange[OF rejected(5)] obtain es where
      "trace w' = trace w @ SdsTempGet tempId CODE_VERIFIER # ExchangeCall cb v # es"
      "filter (off_session names) es = []"
      by (elim exE conjE) simp
    then show ?thesis by (simp add: new_events_def off_session_def)
  next
    case (store_rejected tempId v cb tokens err)
    from sds_catch_no_exchange[OF store_rejected(6)] obtain es where
      "trace w' = trace w @ SdsTempGet tempId CODE_VERIFIER # ExchangeCall cb v #
          SdsAuthNew (access_token tokens) (refresh_token tokens) # es"
      "filter (off_session names) es = []"
      by (elim exE conjE) simp
    then show ?thesis by (simp add: new_events_def off_session_def)
  qed (simp_all add: new_events_def off_session_def)
qed (simp_all add: new_events_def off_session_def)

section \<open>The token helpers\<close>

lemma map_throwing_tenants:
  "list_all tenant_shape ts \<Longrightarrow>
   map_throwing tenant_id_of ts = Inr (map (\<lambda>t. get_member t ''tenant_id'') ts)"
proof (induction ts)
  case Nil
  then show ?case by simp
next
  case (Cons t ts)
  then obtain kvs where "t = JObj kvs" by (cases t) simp_all
  with Cons show ?case by (simp add: tenant_id_of_def)
qed

lemma map_filter_map: "List.map_filter (\<lambda>i. i) (map f xs) = List.map_filter f xs"
  by (induction xs) (simp_all add: List.map_filter_simps split: option.splits)

lemma helpers_undecodable:
  assumes "jwtDecode env tok = None"
  shows "isTenantAdmin env tok = False" "getTenantIds env tok = []"
    "getActiveTenantId env tok = None" "getRealmRoles env tok = JArr []"
    "hasRealmRole env tok role = Inr False"
  using assms
  by (simp_all add: isTenantAdmin_def isTenantAdmin_try_def getTenantIds_def
      getTenantIds_try_def getActiveTenantId_def getRealmRoles_def hasRealmRole_def
      decodeAccessToken_def)

lemma getRealmRoles_value:
  assumes "jwtDecode env tok = Some c"
  shows "getRealmRoles env tok =
     (case js_opt_prop (js_opt_prop (Some c) ''realm_access'') ''roles'' of
        None \<Rightarrow> JArr []
      | Some JNull \<Rightarrow> JArr []
      | Some r \<Rightarrow> r)"
  using assms
  by (cases c) (simp_all add: getRealmRoles_def decodeAccessToken_def)

lemma hasRealmRole_throws:
  "isl (hasRealmRole env tok role) =
     (case jwtDecode env tok of
        None \<Rightarrow> False
      | Some c \<Rightarrow> lacks_includes (js_opt_prop (js_opt_prop (Some c) ''realm_access'') ''roles''))"
proof (cases "jwtDecode env tok")
  case None
  then show ?thesis by (simp add: helpers_undecodable)
next
  case (Some c)
  show ?thesis
  proof (cases "js_opt_prop (js_opt_prop (Some c) ''realm_access'') ''roles''")
    case None
    with Some show ?thesis by (simp add: hasRealmRole_def getRealmRoles_value)
  next
    case (Some r)
    with \<open>jwtDecode env tok = Some c\<close> show ?thesis
      by (cases r) (simp_all add: hasRealmRole_def getRealmRoles_value)
  qed
qed

lemma helpers_shaped:
  assumes dec: "jwtDecode env tok = Some c" and shape: "claims_shape c"
  shows "isTenantAdmin env tok =
      (JStr ''tenant-admin'' \<in>
         set (array_items (js_opt_prop (js_opt_prop (Some c) ''active_tenant'') ''roles'')))"
    "getTenantIds env tok =
      List.map_filter (\<lambda>t. get_member t ''tenant_id'')
        (array_items (js_opt_prop (Some c) ''all_tenants''))"
    "getActiveTenantId env tok = js_opt_prop (js_opt_prop (Some c) ''active_tenant'') ''tenant_id''"
    "getRealmRoles env tok =
      JArr (array_items (js_opt_prop (js_opt_prop (Some c) ''realm_access'') ''roles''))"
    "hasRealmRole env tok role =
      Inr (JStr role \<in>
         set (array_items (js_opt_prop (js_opt_prop (Some c) ''realm_access'') ''roles'')))"
proof -
  from shape obtain kvs where c: "c = JObj kvs" by (cases c) simp_all
  show "isTenantAdmin env tok =
      (JStr ''tenant-admin'' \<in>
         set (array_items (js_opt_prop (js_opt_prop (Some c) ''active_tenant'') ''roles'')))"
  proof (cases "map_of kvs ''active_tenant''")
    case None
    with dec c show ?thesis
      by (simp add: isTenantAdmin_def isTenantAdmin_try_def decodeAccessToken_def)
  next
    case (Some t)
    with shape c obtain tk where t: "t = JObj tk" "optional string_array (map_of tk ''roles'')"
      by (cases t) simp_all
    show ?thesis
    proof (cases "map_of tk ''roles''")
      case None
      with dec c Some t show ?thesis
        by (simp add: isTenantAdmin_def isTenantAdmin_try_def decodeAccessToken_def)
    next
      case (Some rs)
      with t(2) obtain xs where "rs = JArr xs" by (cases rs) simp_all
      with dec c \<open>map_of kvs ''active_tenant'' = Some t\<close> t Some show ?thesis
        by (simp add: isTenantAdmin_def isTenantAdmin_try_def decodeAccessToken_def)
    qed
  qed
  show "getTenantIds env tok =
      List.map_filter (\<lambda>t. get_member t ''tenant_id'')
        (array_items (js_opt_prop (Some c) ''all_tenants''))"
  proof (cases "map_of kvs ''all_tenants''")
    case None
    with dec c show ?thesis
      by (simp add: getTenantIds_def getTenantIds_try_def decodeAccessToken_def
          List.map_filter_simps)
  next
    case (Some a)
    with shape c obtain ts where ts: "a = JArr ts" "list_all tenant_shape ts"
      by (cases a) simp_all
    with dec c Some show ?thesis
      by (simp add: getTenantIds_def getTenantIds_try_def decodeAccessToken_def
          map_throwing_tenants map_filter_map)
  qed
  show "getActiveTenantId env tok
      = js_opt_prop (js_opt_prop (Some c) ''active_tenant'') ''tenant_id''"
    using dec c by (simp add: getActiveTenantId_def decodeAccessToken_def)
  show roles: "getRealmRoles env tok =
      JArr (array_items (js_opt_prop (js_opt_prop (Some c) ''realm_access'') ''roles''))"
  proof (cases "map_of kvs ''realm_access''")
    case None
    with dec c show ?thesis by (simp add: getRealmRoles_value)
  next
    case (Some ra)
    with shape c obtain rk where ra: "ra = JObj rk" "optional string_array (map_of rk ''roles'')"
      by (cases ra) simp_all
    show ?thesis
    proof (cases "map_of rk ''roles''")
      case None
      with dec c Some ra show ?thesis by (simp add: getRealmRoles_value)
    next
      case (Some rs)
      with ra(2) obtain xs where "rs = JArr xs" by (cases rs) simp_all
      with dec c \<open>map_of kvs ''realm_access'' = Some ra\<close> ra Some show ?thesis
        by (simp add: getRealmRoles_value)
    qed
  qed
  show "hasRealmRole env tok role =
      Inr (JStr role \<in>
         set (array_items (js_opt_prop (js_opt_prop (Some c) ''realm_access'') ''roles'')))"
    unfolding hasRealmRole_def roles by simp
qed

section \<open>Evaluating the concrete requests\<close>

lemmas run_defs = authenticate_def handleOidcCallback_def handleOidcCallback_catch_def
  doRefresh_def refreshTokens_def validateAccessToken_def validateAccessToken_try_def
  handleAuthSuccess_def handleAuthFailure_def returned_def decodeAccessToken_def
  authenticateWithSds_def handleSdsOidcCallback_def handleSdsOidcCallback_catch_def
  handleSdsAuthSuccess_def handleSdsAuthFailure_def CODE_VERIFIER_def
  isOidcCallback_def has_param_def cookies_get_def new_events_def withExpiry_def
  REFRESH_TOKEN_EXPIRY_def Let_def

lemmas demo_defs = demo_env_def demo_sds_def demo_names_def demo_options_def demo_origin_def
  callback_url_def callback_href_def plain_url_def request_def getCookieNames_def
  demo_claims_def odd_claims_def

section \<open>Failure clears the session cookies\<close>

text \<open>
  Claim C1, as the code has it. A call of \<open>authenticate\<close> that returns \<open>Fail\<close> ends with the
  deletion of all five cookie slots, and all five are empty afterwards. A call of
  \<open>authenticateWithSds\<close> that returns \<open>Fail\<close> ends with the deletion of the auth-session and
  temp-session slots, and these two are empty afterwards; whatever it returns, it performs no
  cookie operation on a slot other than these two, so the access-token, refresh-token and
  code-verifier cookies of the request survive.
\<close>

theorem failure_clears_session_cookies:
  "(authenticate env u origin names opts w = (Inr Fail, w') \<longrightarrow>
      suffix (deletions opts (all_slots names)) (new_events w w')
      \<and> map (jar w') (all_slots names) = replicate 5 None)
   \<and> (authenticateWithSds env sds u origin names opts w = (Inr Fail, w') \<longrightarrow>
      suffix (deletions opts (session_slots names)) (new_events w w')
      \<and> map (jar w') (session_slots names) = replicate 2 None)
   \<and> (authenticateWithSds env sds u origin names opts w = (res, w') \<longrightarrow>
      filter (off_session names) (new_events w w') = [])"
proof -
  have cookie: "authenticate env u origin names opts w = (Inr Fail, w') \<longrightarrow>
      suffix (deletions opts (all_slots names)) (new_events w w')
      \<and> map (jar w') (all_slots names) = replicate 5 None"
  proof
    assume "authenticate env u origin names opts w = (Inr Fail, w')"
    then obtain w0 pre where "w' = snd (handleAuthFailure names opts w0)"
      "trace w0 = trace w @ pre"
      using authenticate_Fail by blast
    then show "suffix (deletions opts (all_slots names)) (new_events w w')
        \<and> map (jar w') (all_slots names) = replicate 5 None"
      by (rule failure_leaves)
  qed
  have store: "authenticateWithSds env sds u origin names opts w = (Inr Fail, w') \<longrightarrow>
      suffix (deletions opts (session_slots names)) (new_events w w')
      \<and> map (jar w') (session_slots names) = replicate 2 None"
  proof
    assume "authenticateWithSds env sds u origin names opts w = (Inr Fail, w')"
    then obtain w0 pre where "w' = snd (handleSdsAuthFailure names opts w0)"
      "trace w0 = trace w @ pre"
      using sds_Fail by blast
    then show "suffix (deletions opts (session_slots names)) (new_events w w')
        \<and> map (jar w') (session_slots names) = replicate 2 None"
      by (rule sds_failure_leaves)
  qed
  have frame: "authenticateWithSds env sds u origin names opts w = (res, w') \<longrightarrow>
      filter (off_session names) (new_events w w') = []"
    by (rule impI) (rule sds_cookie_ops)
  from cookie store frame show ?thesis by (intro conjI)
qed

text \<open>Both authenticators on a request without a session.\<close>

theorem failure_clears_session_cookies_witness:
  "fst (authenticate demo_env plain_url demo_origin demo_names demo_options
      (request [(''app_access_token'', ''stale'')])) = Inr Fail
   \<and> map (jar (snd (authenticate demo_env plain_url demo_origin demo_names demo_options
        (request [(''app_access_token'', ''stale'')])))) (all_slots demo_names)
       = replicate 5 None
   \<and> suffix (deletions demo_options (all_slots demo_names))
       (new_events (request [(''app_access_token'', ''stale'')])
         (snd (authenticate demo_env plain_url demo_origin demo_names demo_options
            (request [(''app_access_token'', ''stale'')]))))
   \<and> fst (authenticateWithSds demo_env demo_sds plain_url demo_origin demo_names demo_options
      (request [(''app_auth_session_id'', ''session-9'')])) = Inr Fail
   \<and> map (jar (snd (authenticateWithSds demo_env demo_sds plain_url demo_origin demo_names
        demo_options (request [(''app_auth_session_id'', ''session-9'')]))))
        (session_slots demo_names) = replicate 2 None
   \<and> filter (off_session demo_names)
       (new_events (request [(''app_auth_session_id'', ''session-9'')])
         (snd (authenticateWithSds demo_env demo_sds plain_url demo_origin demo_names
            demo_options (request [(''app_auth_session_id'', ''session-9'')])))) = []"
proof -
  let ?w = "request [(''app_access_token'', ''stale'')]"
  let ?a = "authenticate demo_env plain_url demo_origin demo_names demo_options ?w"
  let ?t = "request [(''app_auth_session_id'', ''session-9'')]"
  let ?s = "authenticateWithSds demo_env demo_sds plain_url demo_origin demo_names
      demo_options ?t"
  have a: "?a = (Inr Fail, snd ?a)"
    by (simp add: run_defs demo_defs)
  have s: "?s = (Inr Fail, snd ?s)"
    by (simp add: run_defs demo_defs)
  note inst = failure_clears_session_cookies[where env = demo_env and sds = demo_sds]
  from inst[where w = ?w and w' = "snd ?a", THEN conjunct1, rule_format, OF a]
  have ra: "suffix (deletions demo_options (all_slots demo_names)) (new_events ?w (snd ?a))"
    "map (jar (snd ?a)) (all_slots demo_names) = replicate 5 None"
    by simp_all
  from inst[where w = ?t and w' = "snd ?s", THEN conjunct2, THEN conjunct1, rule_format, OF s]
  have rs: "map (jar (snd ?s)) (session_slots demo_names) = replicate 2 None"
    by simp
  from inst[where w = ?t and w' = "snd ?s" and res = "Inr Fail", THEN conjunct2,
      THEN conjunct2, rule_format, OF s]
  have rf: "filter (off_session demo_names) (new_events ?t (snd ?s)) = []" .
  have fa: "fst ?a = Inr Fail" using a by (metis fst_conv)
  have fs: "fst ?s = Inr Fail" using s by (metis fst_conv)
  from fa ra(2) ra(1) fs rs rf show ?thesis by (intro conjI)
qed

text \<open>The store-backed authenticator fails and three of the five cookies survive.\<close>

theorem sds_failure_keeps_token_cookies:
  "fst (authenticateWithSds demo_env demo_sds plain_url demo_origin demo_names demo_options
      (request [(''app_access_token'', ''jwt-user-123''), (''app_refresh_token'', ''refresh-1''),
                (''app_code_verifier'', ''verifier-1'')])) = Inr Fail
   \<and> map (jar (snd (authenticateWithSds demo_env demo_sds plain_url demo_origin demo_names
        demo_options
        (request [(''app_access_token'', ''jwt-user-123''), (''app_refresh_token'', ''refresh-1''),
                  (''app_code_verifier'', ''verifier-1'')])))) (all_slots demo_names)
       = [Some ''jwt-user-123'', Some ''refresh-1'', Some ''verifier-1'', None, None]
   \<and> filter is_cookie_op (new_events
        (request [(''app_access_token'', ''jwt-user-123''), (''app_refresh_token'', ''refresh-1''),
                  (''app_code_verifier'', ''verifier-1'')])
        (snd (authenticateWithSds demo_env demo_sds plain_url demo_origin demo_names
          demo_options
          (request [(''app_access_token'', ''jwt-user-123''),
                    (''app_refresh_token'', ''refresh-1''),
                    (''app_code_verifier'', ''verifier-1'')]))))
       = [CookieDelete ''app_auth_session_id'' (demo_options\<lparr> maxAge := Some 0 \<rparr>),
          CookieDelete ''app_temp_session_id'' (demo_options\<lparr> maxAge := Some 0 \<rparr>)]"
  by (simp add: run_defs demo_defs all_slots_def)

section \<open>A fatal rejection is thrown\<close>

text \<open>
  Claim C2. When a call of \<open>authenticate\<close> or of \<open>authenticateWithSds\<close> invokes the code
  exchange and the exchange rejects, the call throws \<open>Error "Invalid client credentials"\<close>
  if the error code is \<open>unauthorized_client\<close>, and returns \<open>Fail\<close> without throwing for every
  other rejection (\<open>invalid_grant\<close> among them).
\<close>

theorem unauthorized_client_is_thrown:
  "(authenticate env u origin names opts w = (res, w')
      \<and> ExchangeCall cb v \<in> set (new_events w w')
      \<and> authorizationCodeGrant env cb v = Inl err
    \<longrightarrow> res = (if error_code err = Some ''unauthorized_client''
               then Inl (Error ''Invalid client credentials'') else Inr Fail))
   \<and> (authenticateWithSds env sds u origin names opts w = (res, w')
      \<and> ExchangeCall cb v \<in> set (new_events w w')
      \<and> authorizationCodeGrant env cb v = Inl err
    \<longrightarrow> res = (if error_code err = Some ''unauthorized_client''
               then Inl (Error ''Invalid client credentials'') else Inr Fail))"
proof (intro conjI impI; elim conjE)
  assume "authenticate env u origin names opts w = (res, w')"
    and "ExchangeCall cb v \<in> set (new_events w w')"
    and "authorizationCodeGrant env cb v = Inl err"
  then have "handleOidcCallback_catch err names opts (emit (ExchangeCall cb v) w) = (res, w')"
    by (rule exchange_rejected)
  then show "res = (if error_code err = Some ''unauthorized_client''
               then Inl (Error ''Invalid client credentials'') else Inr Fail)"
    by (cases rule: handleOidcCallback_catch_cases) simp_all
next
  assume "authenticateWithSds env sds u origin names opts w = (res, w')"
    and "ExchangeCall cb v \<in> set (new_events w w')"
    and "authorizationCodeGrant env cb v = Inl err"
  then obtain tempId where "handleSdsOidcCallback_catch err names opts
      (emit (ExchangeCall cb v) (emit (SdsTempGet tempId CODE_VERIFIER) w)) = (res, w')"
    using sds_exchange_rejected by blast
  then show "res = (if error_code err = Some ''unauthorized_client''
               then Inl (Error ''Invalid client credentials'') else Inr Fail)"
    by (cases rule: handleSdsOidcCallback_catch_cases) simp_all
qed

text \<open>A rejected exchange with each error code, in both authenticators.\<close>

theorem unauthorized_client_is_thrown_witness:
  "ExchangeCall callback_href ''verifier-2'' \<in> set (new_events
       (request [(''app_code_verifier'', ''verifier-2'')])
       (snd (authenticate demo_env callback_url demo_origin demo_names demo_options
          (request [(''app_code_verifier'', ''verifier-2'')]))))
   \<and> authorizationCodeGrant demo_env callback_href ''verifier-2''
       = Inl (ResponseBodyError ''unauthorized_client'')
   \<and> fst (authenticate demo_env callback_url demo_origin demo_names demo_options
          (request [(''app_code_verifier'', ''verifier-2'')]))
       = Inl (Error ''Invalid client credentials'')
   \<and> ExchangeCall callback_href ''verifier-9'' \<in> set (new_events
       (request [(''app_code_verifier'', ''verifier-9'')])
       (snd (authenticate demo_env callback_url demo_origin demo_names demo_options
          (request [(''app_code_verifier'', ''verifier-9'')]))))
   \<and> authorizationCodeGrant demo_env callback_href ''verifier-9''
       = Inl (ResponseBodyError ''invalid_grant'')
   \<and> fst (authenticate demo_env callback_url demo_origin demo_names demo_options
          (request [(''app_code_verifier'', ''verifier-9'')])) = Inr Fail
   \<and> ExchangeCall callback_href ''verifier-2'' \<in> set (new_events
       (request [(''app_temp_session_id'', ''temp-2'')])
       (snd (authenticateWithSds demo_env demo_sds callback_url demo_origin demo_names
          demo_options (request [(''app_temp_session_id'', ''temp-2'')]))))
   \<and> fst (authenticateWithSds demo_env demo_sds callback_url demo_origin demo_names
          demo_options (request [(''app_temp_session_id'', ''temp-2'')]))
       = Inl (Error ''Invalid client credentials'')
   \<and> ExchangeCall callback_href ''verifier-4'' \<in> set (new_events
       (request [(''app_temp_session_id'', ''temp-4'')])
       (snd (authenticateWithSds demo_env demo_sds callback_url demo_origin demo_names
          demo_options (request [(''app_temp_session_id'', ''temp-4'')]))))
   \<and> fst (authenticateWithSds demo_env demo_sds callback_url demo_origin demo_names
          demo_options (request [(''app_temp_session_id'', ''temp-4'')])) = Inr Fail"
proof -
  let ?w2 = "request [(''app_code_verifier'', ''verifier-2'')]"
  let ?a2 = "authenticate demo_env callback_url demo_origin demo_names demo_options ?w2"
  let ?w9 = "request [(''app_code_verifier'', ''verifier-9'')]"
  let ?a9 = "authenticate demo_env callback_url demo_origin demo_names demo_options ?w9"
  let ?t2 = "request [(''app_temp_session_id'', ''temp-2'')]"
  let ?s2 = "authenticateWithSds demo_env demo_sds callback_url demo_origin demo_names
      demo_options ?t2"
  let ?t4 = "request [(''app_temp_session_id'', ''temp-4'')]"
  let ?s4 = "authenticateWithSds demo_env demo_sds callback_url demo_origin demo_names
      demo_options ?t4"
  have fatal: "authorizationCodeGrant demo_env callback_href ''verifier-2''
      = Inl (ResponseBodyError ''unauthorized_client'')"
    by (simp add: demo_env_def)
  have grant9: "authorizationCodeGrant demo_env callback_href ''verifier-9''
      = Inl (ResponseBodyError ''invalid_grant'')"
    by (simp add: demo_env_def)
  have grant4: "authorizationCodeGrant demo_env callback_href ''verifier-4''
      = Inl (ResponseBodyError ''invalid_grant'')"
    by (simp add: demo_env_def)
  have c2: "ExchangeCall callback_href ''verifier-2'' \<in> set (new_events ?w2 (snd ?a2))"
    by (simp add: run_defs demo_defs)
  have c9: "ExchangeCall callback_href ''verifier-9'' \<in> set (new_events ?w9 (snd ?a9))"
    by (simp add: run_defs demo_defs)
  have d2: "ExchangeCall callback_href ''verifier-2'' \<in> set (new_events ?t2 (snd ?s2))"
    by (simp add: run_defs demo_defs)
  have d4: "ExchangeCall callback_href ''verifier-4'' \<in> set (new_events ?t4 (snd ?s4))"
    by (simp add: run_defs demo_defs)
  have r2: "fst ?a2 = Inl (Error ''Invalid client credentials'')"
    using unauthorized_client_is_thrown[where env = demo_env and w = ?w2 and res = "fst ?a2"
        and w' = "snd ?a2" and cb = callback_href and v = "''verifier-2''", THEN conjunct1]
      c2 fatal
    by simp
  have r9: "fst ?a9 = Inr Fail"
    using unauthorized_client_is_thrown[where env = demo_env and w = ?w9 and res = "fst ?a9"
        and w' = "snd ?a9" and cb = callback_href and v = "''verifier-9''", THEN conjunct1]
      c9 grant9
    by simp
  have q2: "fst ?s2 = Inl (Error ''Invalid client credentials'')"
    using unauthorized_client_is_thrown[where env = demo_env and w = ?t2 and res = "fst ?s2"
        and w' = "snd ?s2" and cb = callback_href and v = "''verifier-2''", THEN conjunct2]
      d2 fatal
    by simp
  have q4: "fst ?s4 = Inr Fail"
    using unauthorized_client_is_thrown[where env = demo_env and w = ?t4 and res = "fst ?s4"
        and w' = "snd ?s4" and cb = callback_href and v = "''verifier-4''", THEN conjunct2]
      d4 grant4
    by simp
  from c2 fatal r2 c9 grant9 r9 d2 q2 d4 q4 show ?thesis by (intro conjI)
qed

section \<open>The order of the branches\<close>

text \<open>
  Claim C3. The branches of \<open>authenticate\<close> are tried in order. With a refresh-token cookie
  the URL and the origin do not matter and no code exchange happens: with an access-token
  cookie too, the token is validated and the refresh call is made exactly when validation
  fails; without one, the refresh call is made and nothing is validated. Without a
  refresh-token cookie, a callback URL leads to the code exchange (when a verifier cookie is
  there) and to neither validation nor refresh; any other URL gives \<open>Fail\<close> with no call to
  the provider at all.
\<close>

theorem authenticate_priority:
  "(let evs = new_events w (snd (authenticate env u origin names opts w)) in
    (truthy_str (cookies_get w (refreshToken names)) = Some r \<longrightarrow>
       authenticate env u' origin' names opts w = authenticate env u origin names opts w
       \<and> filter is_exchange evs = []
       \<and> (case truthy_str (cookies_get w (accessToken names)) of
            Some a \<Rightarrow>
              filter is_refresh evs =
                (if fst (validateAccessToken env a w) then [] else [RefreshCall r])
          | None \<Rightarrow> filter is_refresh evs = [RefreshCall r] \<and> filter is_userinfo evs = []))
    \<and> (truthy_str (cookies_get w (refreshToken names)) = None \<and> isOidcCallback u \<longrightarrow>
       filter is_refresh evs = [] \<and> filter is_userinfo evs = []
       \<and> filter is_exchange evs =
          (case truthy_str (cookies_get w (codeVerifier names)) of
             None \<Rightarrow> []
           | Some v \<Rightarrow>
               (case newURL env (origin @ pathname u @ search u) of
                  None \<Rightarrow> []
                | Some cb \<Rightarrow> [ExchangeCall cb v])))
    \<and> (truthy_str (cookies_get w (refreshToken names)) = None \<and> \<not> isOidcCallback u \<longrightarrow>
       fst (authenticate env u origin names opts w) = Inr Fail
       \<and> filter is_refresh evs = [] \<and> filter is_userinfo evs = []
       \<and> filter is_exchange evs = []))"
proof -
  define evs where "evs = new_events w (snd (authenticate env u origin names opts w))"
  obtain res w' where run: "authenticate env u origin names opts w = (res, w')"
    by (rule prod.exhaust)
  then have evs: "evs = new_events w w'" by (simp add: evs_def)
  have tokens: "truthy_str (cookies_get w (refreshToken names)) = Some r \<longrightarrow>
       authenticate env u' origin' names opts w = authenticate env u origin names opts w
       \<and> filter is_exchange evs = []
       \<and> (case truthy_str (cookies_get w (accessToken names)) of
            Some a \<Rightarrow>
              filter is_refresh evs =
                (if fst (validateAccessToken env a w) then [] else [RefreshCall r])
          | None \<Rightarrow> filter is_refresh evs = [RefreshCall r] \<and> filter is_userinfo evs = [])"
  proof
    assume refresh: "truthy_str (cookies_get w (refreshToken names)) = Some r"
    have same: "authenticate env u' origin' names opts w
        = authenticate env u origin names opts w"
      using refresh by (simp add: authenticate_def Let_def split: option.splits)
    from run have calls: "filter is_exchange evs = []
       \<and> (case truthy_str (cookies_get w (accessToken names)) of
            Some a \<Rightarrow>
              filter is_refresh evs =
                (if fst (validateAccessToken env a w) then [] else [RefreshCall r])
          | None \<Rightarrow> filter is_refresh evs = [RefreshCall r] \<and> filter is_userinfo evs = [])"
    proof (cases rule: authenticate_cases)
      case (valid a r' w1)
      from validate_no_exchange[OF valid(3)] obtain es where
        "trace w1 = trace w @ es" "filter is_exchange es = []" "filter is_refresh es = []"
        by (elim exE conjE)
      then show ?thesis using valid evs
        by (simp add: new_events_def handleAuthSuccess_trace)
    next
      case (invalid a r' w1)
      from validate_no_exchange[OF invalid(3)] obtain es where
        es: "trace w1 = trace w @ es" "filter is_exchange es = []" "filter is_refresh es = []"
        by (elim exE conjE)
      from doRefresh_no_exchange[OF invalid(4)] obtain es' where
        "trace w' = trace w1 @ es'" "filter is_exchange es' = []"
        "filter is_refresh es' = [RefreshCall r']"
        by (elim exE conjE)
      with es show ?thesis using invalid(1,2,3) refresh evs
        by (simp add: new_events_def)
    next
      case (refresh_only r')
      from doRefresh_no_exchange[OF refresh_only(3)] obtain es' where
        "trace w' = trace w @ es'" "filter is_exchange es' = []"
        "filter is_refresh es' = [RefreshCall r']" "filter is_userinfo es' = []"
        by (elim exE conjE)
      then show ?thesis using refresh_only(1,2) refresh evs
        by (simp add: new_events_def)
    next
      case callback
      with refresh show ?thesis by simp
    next
      case none
      with refresh show ?thesis by simp
    qed
    from same calls show "authenticate env u' origin' names opts w
         = authenticate env u origin names opts w
       \<and> filter is_exchange evs = []
       \<and> (case truthy_str (cookies_get w (accessToken names)) of
            Some a \<Rightarrow>
              filter is_refresh evs =
                (if fst (validateAccessToken env a w) then [] else [RefreshCall r])
          | None \<Rightarrow> filter is_refresh evs = [RefreshCall r] \<and> filter is_userinfo evs = [])"
      by (intro conjI) simp_all
  qed
  have callback: "truthy_str (cookies_get w (refreshToken names)) = None \<and> isOidcCallback u \<longrightarrow>
       filter is_refresh evs = [] \<and> filter is_userinfo evs = []
       \<and> filter is_exchange evs =
          (case truthy_str (cookies_get w (codeVerifier names)) of
             None \<Rightarrow> []
           | Some v \<Rightarrow>
               (case newURL env (origin @ pathname u @ search u) of
                  None \<Rightarrow> []
                | Some cb \<Rightarrow> [ExchangeCall cb v]))"
  proof (intro impI, elim conjE)
    assume "truthy_str (cookies_get w (refreshToken names)) = None" "isOidcCallback u"
    with run have "handleOidcCallback env u origin (cookies_get w (codeVerifier names))
        names opts w = (res, w')"
      by (simp add: authenticate_def Let_def split: option.splits)
    then show "filter is_refresh evs = [] \<and> filter is_userinfo evs = []
       \<and> filter is_exchange evs =
          (case truthy_str (cookies_get w (codeVerifier names)) of
             None \<Rightarrow> []
           | Some v \<Rightarrow>
               (case newURL env (origin @ pathname u @ search u) of
                  None \<Rightarrow> []
                | Some cb \<Rightarrow> [ExchangeCall cb v]))"
      unfolding evs by (rule handleOidcCallback_calls)
  qed
  have neither: "truthy_str (cookies_get w (refreshToken names)) = None \<and> \<not> isOidcCallback u \<longrightarrow>
       fst (authenticate env u origin names opts w) = Inr Fail
       \<and> filter is_refresh evs = [] \<and> filter is_userinfo evs = []
       \<and> filter is_exchange evs = []"
  proof (intro impI, elim conjE)
    assume "truthy_str (cookies_get w (refreshToken names)) = None" "\<not> isOidcCallback u"
    then have "authenticate env u origin names opts w
        = returned (handleAuthFailure names opts w)"
      by (simp add: authenticate_def Let_def split: option.splits)
    then show "fst (authenticate env u origin names opts w) = Inr Fail
       \<and> filter is_refresh evs = [] \<and> filter is_userinfo evs = []
       \<and> filter is_exchange evs = []"
      unfolding evs_def by (simp add: new_events_def returned_def)
  qed
  from tokens callback neither show ?thesis
    unfolding Let_def evs_def by (intro conjI)
qed

text \<open>One request for each branch.\<close>

theorem authenticate_priority_witness:
  "truthy_str (cookies_get (request [(''app_refresh_token'', ''refresh-1''),
        (''app_code_verifier'', ''verifier-3'')]) (refreshToken demo_names)) = Some ''refresh-1''
   \<and> isOidcCallback callback_url
   \<and> authenticate demo_env plain_url [] demo_names demo_options
        (request [(''app_refresh_token'', ''refresh-1''), (''app_code_verifier'', ''verifier-3'')])
     = authenticate demo_env callback_url demo_origin demo_names demo_options
        (request [(''app_refresh_token'', ''refresh-1''), (''app_code_verifier'', ''verifier-3'')])
   \<and> filter is_exchange (new_events
        (request [(''app_refresh_token'', ''refresh-1''), (''app_code_verifier'', ''verifier-3'')])
        (snd (authenticate demo_env callback_url demo_origin demo_names demo_options
          (request [(''app_refresh_token'', ''refresh-1''),
                    (''app_code_verifier'', ''verifier-3'')])))) = []
   \<and> filter is_refresh (new_events
        (request [(''app_refresh_token'', ''refresh-1''), (''app_code_verifier'', ''verifier-3'')])
        (snd (authenticate demo_env callback_url demo_origin demo_names demo_options
          (request [(''app_refresh_token'', ''refresh-1''),
                    (''app_code_verifier'', ''verifier-3'')])))) = [RefreshCall ''refresh-1'']
   \<and> truthy_str (cookies_get (request [(''app_code_verifier'', ''verifier-3'')])
        (refreshToken demo_names)) = None
   \<and> filter is_exchange (new_events (request [(''app_code_verifier'', ''verifier-3'')])
        (snd (authenticate demo_env callback_url demo_origin demo_names demo_options
          (request [(''app_code_verifier'', ''verifier-3'')]))))
       = [ExchangeCall callback_href ''verifier-3'']
   \<and> \<not> isOidcCallback plain_url
   \<and> fst (authenticate demo_env plain_url demo_origin demo_names demo_options
        (request [(''app_code_verifier'', ''verifier-3'')])) = Inr Fail"
proof -
  let ?w = "request [(''app_refresh_token'', ''refresh-1''), (''app_code_verifier'', ''verifier-3'')]"
  let ?v = "request [(''app_code_verifier'', ''verifier-3'')]"
  have refresh: "truthy_str (cookies_get ?w (refreshToken demo_names)) = Some ''refresh-1''"
    by (simp add: run_defs demo_defs)
  have access: "truthy_str (cookies_get ?w (accessToken demo_names)) = None"
    by (simp add: run_defs demo_defs)
  have none: "truthy_str (cookies_get ?v (refreshToken demo_names)) = None"
    by (simp add: run_defs demo_defs)
  have verifier: "truthy_str (cookies_get ?v (codeVerifier demo_names)) = Some ''verifier-3''"
    by (simp add: run_defs demo_defs)
  have url: "newURL demo_env (demo_origin @ pathname callback_url @ search callback_url)
      = Some callback_href"
    by (simp add: demo_defs)
  have cb: "isOidcCallback callback_url" and plain: "\<not> isOidcCallback plain_url"
    by (simp_all add: run_defs demo_defs)
  note first = authenticate_priority[where w = ?w and env = demo_env and u = callback_url
      and origin = demo_origin and names = demo_names and opts = demo_options
      and r = "''refresh-1''" and u' = plain_url and origin' = "[]",
      unfolded Let_def, THEN conjunct1, THEN mp, OF refresh]
  note second = authenticate_priority[where w = ?v and env = demo_env and u = callback_url
      and origin = demo_origin and names = demo_names and opts = demo_options,
      unfolded Let_def, THEN conjunct2, THEN conjunct1, THEN mp, OF conjI[OF none cb]]
  note third = authenticate_priority[where w = ?v and env = demo_env and u = plain_url
      and origin = demo_origin and names = demo_names and opts = demo_options,
      unfolded Let_def, THEN conjunct2, THEN conjunct2, THEN mp, OF conjI[OF none plain]]
  from first access have one: "authenticate demo_env plain_url [] demo_names demo_options ?w
      = authenticate demo_env callback_url demo_origin demo_names demo_options ?w"
    "filter is_exchange (new_events ?w (snd (authenticate demo_env callback_url demo_origin
        demo_names demo_options ?w))) = []"
    "filter is_refresh (new_events ?w (snd (authenticate demo_env callback_url demo_origin
        demo_names demo_options ?w))) = [RefreshCall ''refresh-1'']"
    by simp_all
  from second verifier url have two: "filter is_exchange (new_events ?v
        (snd (authenticate demo_env callback_url demo_origin demo_names demo_options ?v)))
       = [ExchangeCall callback_href ''verifier-3'']"
    by simp
  from third have three: "fst (authenticate demo_env plain_url demo_origin demo_names
      demo_options ?v) = Inr Fail"
    by simp
  from refresh cb one none two plain three show ?thesis by (intro conjI)
qed

section \<open>A successful refresh\<close>

text \<open>
  Claim C4, as the code has it. When the request holds a refresh-token cookie, the access
  token is absent or fails validation, the refresh grant succeeds and the new access token
  decodes, \<open>authenticate\<close> makes exactly one refresh call and returns \<open>Success\<close> with the
  decoded claims of the new access token. The refresh-token cookie is written, with
  \<open>maxAge\<close> 31536000, when the response carries a non-empty refresh token, and is not
  written otherwise.
\<close>

theorem refresh_success_sets_tokens:
  assumes refresh: "truthy_str (cookies_get w (refreshToken names)) = Some r"
    and stale: "case truthy_str (cookies_get w (accessToken names)) of
                  None \<Rightarrow> True
                | Some a \<Rightarrow> \<not> fst (validateAccessToken env a w)"
    and grant: "refreshTokenGrant env r = Inr tokens"
    and decodes: "jwtDecode env (access_token tokens) = Some claims"
    and distinct: "accessToken names \<noteq> refreshToken names"
  shows "fst (authenticate env u origin names opts w) = Inr (Success claims (access_token tokens))
    \<and> filter is_refresh (new_events w (snd (authenticate env u origin names opts w)))
        = [RefreshCall r]
    \<and> filter (sets_cookie (refreshToken names))
        (new_events w (snd (authenticate env u origin names opts w)))
        = (case truthy_str (refresh_token tokens) of
             None \<Rightarrow> []
           | Some rt \<Rightarrow>
               [CookieSet (refreshToken names) rt (opts\<lparr> maxAge := Some 31536000 \<rparr>)])"
proof -
  from authenticate_refresh[OF refresh stale, of u origin opts] obtain w1 es where
    es: "trace w1 = trace w @ es" "filter is_cookie_op es = []" "filter is_refresh es = []"
    and run: "authenticate env u origin names opts w = doRefresh env r names opts w1"
    by (elim exE conjE)
  note run' = run[unfolded doRefresh_granted[OF grant]]
  have sets: "filter (sets_cookie (refreshToken names)) es = []"
    using es(2) by (rule no_cookie_ops_filter)
  have "fst (authenticate env u origin names opts w)
      = Inr (Success claims (access_token tokens))"
    unfolding run' using decodes by (simp add: handleAuthSuccess_fst)
  moreover have "filter is_refresh (new_events w (snd (authenticate env u origin names opts w)))
      = [RefreshCall r]"
    unfolding run' using es
    by (simp add: new_events_def handleAuthSuccess_trace split: option.splits)
  moreover have "filter (sets_cookie (refreshToken names))
        (new_events w (snd (authenticate env u origin names opts w)))
        = (case truthy_str (refresh_token tokens) of
             None \<Rightarrow> []
           | Some rt \<Rightarrow>
               [CookieSet (refreshToken names) rt (opts\<lparr> maxAge := Some 31536000 \<rparr>)])"
    unfolding run' using es(1) sets distinct
    by (simp add: new_events_def handleAuthSuccess_trace withExpiry_def
        REFRESH_TOKEN_EXPIRY_def split: option.splits)
  ultimately show ?thesis by (intro conjI)
qed

text \<open>A refresh whose response renews the refresh token.\<close>

theorem refresh_success_sets_tokens_witness:
  "truthy_str (cookies_get (request [(''app_refresh_token'', ''refresh-2'')])
      (refreshToken demo_names)) = Some ''refresh-2''
   \<and> truthy_str (cookies_get (request [(''app_refresh_token'', ''refresh-2'')])
      (accessToken demo_names)) = None
   \<and> refreshTokenGrant demo_env ''refresh-2''
       = Inr \<lparr> access_token = ''jwt-user-123'', refresh_token = Some ''refresh-3'',
               expires_in = None \<rparr>
   \<and> jwtDecode demo_env ''jwt-user-123'' = Some demo_claims
   \<and> accessToken demo_names \<noteq> refreshToken demo_names
   \<and> fst (authenticate demo_env plain_url demo_origin demo_names demo_options
        (request [(''app_refresh_token'', ''refresh-2'')]))
       = Inr (Success demo_claims ''jwt-user-123'')
   \<and> filter is_refresh (new_events (request [(''app_refresh_token'', ''refresh-2'')])
        (snd (authenticate demo_env plain_url demo_origin demo_names demo_options
          (request [(''app_refresh_token'', ''refresh-2'')])))) = [RefreshCall ''refresh-2'']
   \<and> filter (sets_cookie ''app_refresh_token'')
        (new_events (request [(''app_refresh_token'', ''refresh-2'')])
        (snd (authenticate demo_env plain_url demo_origin demo_names demo_options
          (request [(''app_refresh_token'', ''refresh-2'')]))))
       = [CookieSet ''app_refresh_token'' ''refresh-3''
            (demo_options\<lparr> maxAge := Some 31536000 \<rparr>)]"
proof -
  let ?w = "request [(''app_refresh_token'', ''refresh-2'')]"
  let ?tokens = "\<lparr> access_token = ''jwt-user-123'', refresh_token = Some ''refresh-3'',
               expires_in = None \<rparr>"
  have refresh: "truthy_str (cookies_get ?w (refreshToken demo_names)) = Some ''refresh-2''"
    by (simp add: run_defs demo_defs)
  have access: "truthy_str (cookies_get ?w (accessToken demo_names)) = None"
    by (simp add: run_defs demo_defs)
  then have stale: "case truthy_str (cookies_get ?w (accessToken demo_names)) of
                  None \<Rightarrow> True
                | Some a \<Rightarrow> \<not> fst (validateAccessToken demo_env a ?w)"
    by simp
  have grant: "refreshTokenGrant demo_env ''refresh-2'' = Inr ?tokens"
    by (simp add: demo_env_def)
  have decodes: "jwtDecode demo_env (access_token ?tokens) = Some demo_claims"
    by (simp add: demo_env_def)
  have distinct: "accessToken demo_names \<noteq> refreshToken demo_names"
    by (simp add: demo_defs)
  note result = refresh_success_sets_tokens[OF refresh stale grant decodes distinct,
      of plain_url demo_origin demo_options]
  have name: "refreshToken demo_names = ''app_refresh_token''"
    by (simp add: demo_defs)
  from result have
    "fst (authenticate demo_env plain_url demo_origin demo_names demo_options ?w)
       = Inr (Success demo_claims ''jwt-user-123'')"
    "filter is_refresh (new_events ?w
        (snd (authenticate demo_env plain_url demo_origin demo_names demo_options ?w)))
       = [RefreshCall ''refresh-2'']"
    "filter (sets_cookie ''app_refresh_token'') (new_events ?w
        (snd (authenticate demo_env plain_url demo_origin demo_names demo_options ?w)))
       = [CookieSet ''app_refresh_token'' ''refresh-3''
            (demo_options\<lparr> maxAge := Some 31536000 \<rparr>)]"
    unfolding name by simp_all
  with refresh access grant decodes distinct show ?thesis
    by (intro conjI) simp_all
qed

text \<open>A successful refresh whose response has no refresh token: the refresh-token cookie is not written.\<close>

theorem refresh_without_new_refresh_token:
  "refreshTokenGrant demo_env ''refresh-1''
       = Inr \<lparr> access_token = ''jwt-user-123'', refresh_token = None, expires_in = Some 300 \<rparr>
   \<and> fst (authenticate demo_env plain_url demo_origin demo_names demo_options
        (request [(''app_refresh_token'', ''refresh-1'')]))
       = Inr (Success demo_claims ''jwt-user-123'')
   \<and> filter is_refresh (new_events (request [(''app_refresh_token'', ''refresh-1'')])
        (snd (authenticate demo_env plain_url demo_origin demo_names demo_options
          (request [(''app_refresh_token'', ''refresh-1'')])))) = [RefreshCall ''refresh-1'']
   \<and> filter is_cookie_op (new_events (request [(''app_refresh_token'', ''refresh-1'')])
        (snd (authenticate demo_env plain_url demo_origin demo_names demo_options
          (request [(''app_refresh_token'', ''refresh-1'')]))))
       = [CookieSet ''app_access_token'' ''jwt-user-123'' (demo_options\<lparr> maxAge := Some 300 \<rparr>),
          CookieDelete ''app_code_verifier'' (demo_options\<lparr> maxAge := Some 0 \<rparr>)]
   \<and> filter (sets_cookie ''app_refresh_token'')
        (new_events (request [(''app_refresh_token'', ''refresh-1'')])
        (snd (authenticate demo_env plain_url demo_origin demo_names demo_options
          (request [(''app_refresh_token'', ''refresh-1'')])))) = []"
  by (simp add: run_defs demo_defs)

section \<open>A valid session\<close>

text \<open>
  Claim C5. When both token cookies are present and the access token validates,
  \<open>authenticate\<close> returns \<open>Success\<close> with the decoded claims of that token, whose \<open>sub\<close> is the
  subject the token encodes (the one the user-info call was made for). The only cookie
  operation of the call is the deletion of the code verifier: neither the access-token nor
  the refresh-token cookie is set.
\<close>

theorem valid_session_is_not_rewritten:
  assumes access: "truthy_str (cookies_get w (accessToken names)) = Some a"
    and refresh: "truthy_str (cookies_get w (refreshToken names)) = Some r"
    and valid: "fst (validateAccessToken env a w)"
  shows "\<exists>claims sub. jwtDecode env a = Some claims \<and> get_member claims ''sub'' = Some sub
      \<and> fst (authenticate env u origin names opts w) = Inr (Success claims a)
      \<and> new_events w (snd (authenticate env u origin names opts w)) =
          [UserInfoCall a sub, CookieDelete (codeVerifier names) (withExpiry opts 0)]
      \<and> filter (sets_cookie (accessToken names))
          (new_events w (snd (authenticate env u origin names opts w))) = []
      \<and> filter (sets_cookie (refreshToken names))
          (new_events w (snd (authenticate env u origin names opts w))) = []"
proof -
  from authenticate_valid[OF assms, of u origin opts] obtain claims sub where
    c: "jwtDecode env a = Some claims" "get_member claims ''sub'' = Some sub"
    and res: "fst (authenticate env u origin names opts w) = Inr (Success claims a)"
    and evs: "new_events w (snd (authenticate env u origin names opts w)) =
          [UserInfoCall a sub, CookieDelete (codeVerifier names) (withExpiry opts 0)]"
    by (elim exE conjE)
  have "filter (sets_cookie (accessToken names))
          (new_events w (snd (authenticate env u origin names opts w))) = []"
    "filter (sets_cookie (refreshToken names))
          (new_events w (snd (authenticate env u origin names opts w))) = []"
    unfolding evs by simp_all
  with c res evs show ?thesis by (intro exI conjI)
qed

text \<open>A request with a valid session.\<close>

theorem valid_session_is_not_rewritten_witness:
  "truthy_str (cookies_get
      (request [(''app_access_token'', ''jwt-user-123''), (''app_refresh_token'', ''refresh-1'')])
      (accessToken demo_names)) = Some ''jwt-user-123''
   \<and> truthy_str (cookies_get
      (request [(''app_access_token'', ''jwt-user-123''), (''app_refresh_token'', ''refresh-1'')])
      (refreshToken demo_names)) = Some ''refresh-1''
   \<and> fst (validateAccessToken demo_env ''jwt-user-123''
      (request [(''app_access_token'', ''jwt-user-123''), (''app_refresh_token'', ''refresh-1'')]))
   \<and> fst (authenticate demo_env callback_url demo_origin demo_names demo_options
      (request [(''app_access_token'', ''jwt-user-123''), (''app_refresh_token'', ''refresh-1'')]))
       = Inr (Success demo_claims ''jwt-user-123'')
   \<and> get_member demo_claims ''sub'' = Some (JStr ''user-123'')
   \<and> filter (sets_cookie (accessToken demo_names)) (new_events
      (request [(''app_access_token'', ''jwt-user-123''), (''app_refresh_token'', ''refresh-1'')])
      (snd (authenticate demo_env callback_url demo_origin demo_names demo_options
        (request [(''app_access_token'', ''jwt-user-123''),
                  (''app_refresh_token'', ''refresh-1'')])))) = []
   \<and> filter (sets_cookie (refreshToken demo_names)) (new_events
      (request [(''app_access_token'', ''jwt-user-123''), (''app_refresh_token'', ''refresh-1'')])
      (snd (authenticate demo_env callback_url demo_origin demo_names demo_options
        (request [(''app_access_token'', ''jwt-user-123''),
                  (''app_refresh_token'', ''refresh-1'')])))) = []"
proof -
  let ?w = "request [(''app_access_token'', ''jwt-user-123''),
      (''app_refresh_token'', ''refresh-1'')]"
  have access: "truthy_str (cookies_get ?w (accessToken demo_names)) = Some ''jwt-user-123''"
    by (simp add: run_defs demo_defs)
  have refresh: "truthy_str (cookies_get ?w (refreshToken demo_names)) = Some ''refresh-1''"
    by (simp add: run_defs demo_defs)
  have valid: "fst (validateAccessToken demo_env ''jwt-user-123'' ?w)"
    by (simp add: run_defs demo_defs)
  have decodes: "jwtDecode demo_env ''jwt-user-123'' = Some demo_claims"
    by (simp add: demo_env_def)
  have sub: "get_member demo_claims ''sub'' = Some (JStr ''user-123'')"
    by (simp add: demo_claims_def)
  from valid_session_is_not_rewritten[OF access refresh valid,
      of callback_url demo_origin demo_options]
  obtain claims where "jwtDecode demo_env ''jwt-user-123'' = Some claims"
    and res: "fst (authenticate demo_env callback_url demo_origin demo_names demo_options ?w)
       = Inr (Success claims ''jwt-user-123'')"
    and sets: "filter (sets_cookie (accessToken demo_names)) (new_events ?w
         (snd (authenticate demo_env callback_url demo_origin demo_names demo_options ?w))) = []"
      "filter (sets_cookie (refreshToken demo_names)) (new_events ?w
         (snd (authenticate demo_env callback_url demo_origin demo_names demo_options ?w))) = []"
    by (elim exE conjE)
  with decodes have "claims = demo_claims" by simp
  with res have "fst (authenticate demo_env callback_url demo_origin demo_names demo_options ?w)
       = Inr (Success demo_claims ''jwt-user-123'')"
    by simp
  with access refresh valid sub sets show ?thesis by (intro conjI)
qed

section \<open>A callback without verifier\<close>

text \<open>
  Claim C6. Without a refresh-token cookie, on a URL that carries \<open>code\<close> and
  \<open>session_state\<close>, and without a code-verifier cookie, \<open>authenticate\<close> returns \<open>Fail\<close> and the
  code exchange is never invoked.
\<close>

theorem callback_without_verifier_fails:
  assumes "truthy_str (cookies_get w (refreshToken names)) = None"
    and "isOidcCallback u"
    and "truthy_str (cookies_get w (codeVerifier names)) = None"
  shows "fst (authenticate env u origin names opts w) = Inr Fail
    \<and> filter is_exchange (new_events w (snd (authenticate env u origin names opts w))) = []"
proof -
  have run: "authenticate env u origin names opts w =
      returned (handleAuthFailure names opts
        (emit (Log LError ''No code verifier found for OIDC callback'') w))"
    using assms
    by (simp add: authenticate_def handleOidcCallback_def Let_def split: option.splits)
  show ?thesis unfolding run by (simp add: returned_def new_events_def)
qed

text \<open>A callback request without any cookie.\<close>

theorem callback_without_verifier_fails_witness:
  "truthy_str (cookies_get (request []) (accessToken demo_names)) = None
   \<and> truthy_str (cookies_get (request []) (refreshToken demo_names)) = None
   \<and> isOidcCallback callback_url
   \<and> truthy_str (cookies_get (request []) (codeVerifier demo_names)) = None
   \<and> fst (authenticate demo_env callback_url demo_origin demo_names demo_options (request []))
       = Inr Fail
   \<and> filter is_exchange (new_events (request [])
        (snd (authenticate demo_env callback_url demo_origin demo_names demo_options
          (request [])))) = []"
proof -
  have access: "truthy_str (cookies_get (request []) (accessToken demo_names)) = None"
    and refresh: "truthy_str (cookies_get (request []) (refreshToken demo_names)) = None"
    and verifier: "truthy_str (cookies_get (request []) (codeVerifier demo_names)) = None"
    and cb: "isOidcCallback callback_url"
    by (simp_all add: run_defs demo_defs)
  from callback_without_verifier_fails[OF refresh cb verifier, of demo_env demo_origin
      demo_options]
  have "fst (authenticate demo_env callback_url demo_origin demo_names demo_options
          (request [])) = Inr Fail"
    "filter is_exchange (new_events (request [])
        (snd (authenticate demo_env callback_url demo_origin demo_names demo_options
          (request [])))) = []"
    by simp_all
  with access refresh cb verifier show ?thesis by (intro conjI)
qed

section \<open>The helpers never throw on declared claims\<close>

text \<open>
  Claim C8, as the code has it. On a token that does not decode, the five helpers return
  \<open>false\<close>, \<open>[]\<close>, \<open>undefined\<close>, \<open>[]\<close> and \<open>false\<close>. On a token whose payload has the declared
  shape of \<open>AuthClaims\<close>, none of them throws: \<open>isTenantAdmin\<close> is true exactly when
  \<open>tenant-admin\<close> is among \<open>active_tenant.roles\<close>, \<open>getTenantIds\<close> lists the tenant ids of
  \<open>all_tenants\<close> in order, \<open>getActiveTenantId\<close> is \<open>active_tenant.tenant_id\<close>, \<open>getRealmRoles\<close>
  is \<open>realm_access.roles\<close> (or \<open>[]\<close>), and \<open>hasRealmRole\<close> tells whether the role is among
  them. In general \<open>hasRealmRole\<close> throws exactly when the token decodes and
  \<open>realm_access.roles\<close> is a number, a boolean or an object: a value that is neither
  \<open>null\<close> nor \<open>undefined\<close> and has no method \<open>includes\<close>.
\<close>

theorem helpers_on_declared_shape:
  "(jwtDecode env tok = None \<longrightarrow>
      isTenantAdmin env tok = False \<and> getTenantIds env tok = []
      \<and> getActiveTenantId env tok = None \<and> getRealmRoles env tok = JArr []
      \<and> hasRealmRole env tok role = Inr False)
   \<and> (jwtDecode env tok = Some c \<and> claims_shape c \<longrightarrow>
      isTenantAdmin env tok =
        (JStr ''tenant-admin'' \<in>
           set (array_items (js_opt_prop (js_opt_prop (Some c) ''active_tenant'') ''roles'')))
      \<and> getTenantIds env tok =
          List.map_filter (\<lambda>t. get_member t ''tenant_id'')
            (array_items (js_opt_prop (Some c) ''all_tenants''))
      \<and> getActiveTenantId env tok
          = js_opt_prop (js_opt_prop (Some c) ''active_tenant'') ''tenant_id''
      \<and> getRealmRoles env tok =
          JArr (array_items (js_opt_prop (js_opt_prop (Some c) ''realm_access'') ''roles''))
      \<and> hasRealmRole env tok role =
          Inr (JStr role \<in>
            set (array_items (js_opt_prop (js_opt_prop (Some c) ''realm_access'') ''roles''))))
   \<and> isl (hasRealmRole env tok role) =
       (case jwtDecode env tok of
          None \<Rightarrow> False
        | Some c \<Rightarrow>
            lacks_includes (js_opt_prop (js_opt_prop (Some c) ''realm_access'') ''roles''))"
proof -
  have undecodable: "jwtDecode env tok = None \<longrightarrow>
      isTenantAdmin env tok = False \<and> getTenantIds env tok = []
      \<and> getActiveTenantId env tok = None \<and> getRealmRoles env tok = JArr []
      \<and> hasRealmRole env tok role = Inr False"
    by (simp add: helpers_undecodable)
  have shaped: "jwtDecode env tok = Some c \<and> claims_shape c \<longrightarrow>
      isTenantAdmin env tok =
        (JStr ''tenant-admin'' \<in>
           set (array_items (js_opt_prop (js_opt_prop (Some c) ''active_tenant'') ''roles'')))
      \<and> getTenantIds env tok =
          List.map_filter (\<lambda>t. get_member t ''tenant_id'')
            (array_items (js_opt_prop (Some c) ''all_tenants''))
      \<and> getActiveTenantId env tok
          = js_opt_prop (js_opt_prop (Some c) ''active_tenant'') ''tenant_id''
      \<and> getRealmRoles env tok =
          JArr (array_items (js_opt_prop (js_opt_prop (Some c) ''realm_access'') ''roles''))
      \<and> hasRealmRole env tok role =
          Inr (JStr role \<in>
            set (array_items (js_opt_prop (js_opt_prop (Some c) ''realm_access'') ''roles'')))"
  proof (intro impI, elim conjE)
    assume dec: "jwtDecode env tok = Some c" and shape: "claims_shape c"
    from helpers_shaped(1-4)[OF dec shape] helpers_shaped(5)[OF dec shape, where role = role]
    show "isTenantAdmin env tok =
        (JStr ''tenant-admin'' \<in>
           set (array_items (js_opt_prop (js_opt_prop (Some c) ''active_tenant'') ''roles'')))
      \<and> getTenantIds env tok =
          List.map_filter (\<lambda>t. get_member t ''tenant_id'')
            (array_items (js_opt_prop (Some c) ''all_tenants''))
      \<and> getActiveTenantId env tok
          = js_opt_prop (js_opt_prop (Some c) ''active_tenant'') ''tenant_id''
      \<and> getRealmRoles env tok =
          JArr (array_items (js_opt_prop (js_opt_prop (Some c) ''realm_access'') ''roles''))
      \<and> hasRealmRole env tok role =
          Inr (JStr role \<in>
            set (array_items (js_opt_prop (js_opt_prop (Some c) ''realm_access'') ''roles'')))"
      by (intro conjI)
  qed
  from undecodable shaped hasRealmRole_throws[of env tok role] show ?thesis
    by (intro conjI)
qed

text \<open>The helpers on the token \<open>invalid\<close> and on a token of the declared shape.\<close>

theorem helpers_on_declared_shape_witness:
  "jwtDecode demo_env ''invalid'' = None
   \<and> isTenantAdmin demo_env ''invalid'' = False
   \<and> getTenantIds demo_env ''invalid'' = []
   \<and> getActiveTenantId demo_env ''invalid'' = None
   \<and> getRealmRoles demo_env ''invalid'' = JArr []
   \<and> hasRealmRole demo_env ''invalid'' ''admin'' = Inr False
   \<and> jwtDecode demo_env ''jwt-user-123'' = Some demo_claims
   \<and> claims_shape demo_claims
   \<and> isTenantAdmin demo_env ''jwt-user-123'' = True
   \<and> getTenantIds demo_env ''jwt-user-123'' = [JStr ''t1'', JStr ''t2'']
   \<and> getActiveTenantId demo_env ''jwt-user-123'' = Some (JStr ''t1'')
   \<and> getRealmRoles demo_env ''jwt-user-123'' = JArr [JStr ''admin'', JStr ''user'']
   \<and> hasRealmRole demo_env ''jwt-user-123'' ''admin'' = Inr True
   \<and> hasRealmRole demo_env ''jwt-user-123'' ''root'' = Inr False"
proof -
  have none: "jwtDecode demo_env ''invalid'' = None"
    and some: "jwtDecode demo_env ''jwt-user-123'' = Some demo_claims"
    by (simp_all add: demo_env_def)
  have shape: "claims_shape demo_claims"
    by (simp add: demo_claims_def)
  from helpers_on_declared_shape[of demo_env "''invalid''" "''admin''", THEN conjunct1,
      THEN mp, OF none]
  have a: "isTenantAdmin demo_env ''invalid'' = False \<and> getTenantIds demo_env ''invalid'' = []
      \<and> getActiveTenantId demo_env ''invalid'' = None
      \<and> getRealmRoles demo_env ''invalid'' = JArr []
      \<and> hasRealmRole demo_env ''invalid'' ''admin'' = Inr False" .
  from helpers_on_declared_shape[of demo_env "''jwt-user-123''" "''admin''" demo_claims,
      THEN conjunct2, THEN conjunct1, THEN mp, OF conjI[OF some shape]]
  have b: "isTenantAdmin demo_env ''jwt-user-123'' = True"
    "getTenantIds demo_env ''jwt-user-123'' = [JStr ''t1'', JStr ''t2'']"
    "getActiveTenantId demo_env ''jwt-user-123'' = Some (JStr ''t1'')"
    "getRealmRoles demo_env ''jwt-user-123'' = JArr [JStr ''admin'', JStr ''user'']"
    "hasRealmRole demo_env ''jwt-user-123'' ''admin'' = Inr True"
    by (simp_all add: demo_claims_def List.map_filter_simps)
  from helpers_on_declared_shape[of demo_env "''jwt-user-123''" "''root''" demo_claims,
      THEN conjunct2, THEN conjunct1, THEN mp, OF conjI[OF some shape]]
  have c: "hasRealmRole demo_env ''jwt-user-123'' ''root'' = Inr False"
    by (simp add: demo_claims_def)
  from none a some shape b c show ?thesis by (intro conjI) simp_all
qed

text \<open>A token that decodes to a payload whose \<open>realm_access.roles\<close> is a number: \<open>hasRealmRole\<close> throws.\<close>

theorem hasRealmRole_throws_on_numeric_roles:
  "jwtDecode demo_env ''jwt-odd''
       = Some (JObj [(''realm_access'', JObj [(''roles'', JNum 5)])])
   \<and> getRealmRoles demo_env ''jwt-odd'' = JNum 5
   \<and> hasRealmRole demo_env ''jwt-odd'' ''admin'' = Inl TypeError"
  by (simp add: demo_env_def odd_claims_def hasRealmRole_def getRealmRoles_def
      decodeAccessToken_def)

section \<open>A fatal rejection leaves the cookies\<close>

text \<open>
  Claim C9. When a call of \<open>authenticate\<close> or of \<open>authenticateWithSds\<close> invokes the code
  exchange and the exchange rejects with \<open>unauthorized_client\<close>, the call performs no cookie
  operation at all, and the cookies are the same after the call as before it.
\<close>

theorem unauthorized_client_leaves_cookies:
  "(authenticate env u origin names opts w = (res, w')
      \<and> ExchangeCall cb v \<in> set (new_events w w')
      \<and> authorizationCodeGrant env cb v = Inl err
      \<and> error_code err = Some ''unauthorized_client''
    \<longrightarrow> filter is_cookie_op (new_events w w') = [] \<and> jar w' = jar w)
   \<and> (authenticateWithSds env sds u origin names opts w = (res, w')
      \<and> ExchangeCall cb v \<in> set (new_events w w')
      \<and> authorizationCodeGrant env cb v = Inl err
      \<and> error_code err = Some ''unauthorized_client''
    \<longrightarrow> filter is_cookie_op (new_events w w') = [] \<and> jar w' = jar w)"
proof -
  have cookie: "authenticate env u origin names opts w = (res, w')
      \<and> ExchangeCall cb v \<in> set (new_events w w')
      \<and> authorizationCodeGrant env cb v = Inl err
      \<and> error_code err = Some ''unauthorized_client''
    \<longrightarrow> filter is_cookie_op (new_events w w') = [] \<and> jar w' = jar w"
  proof (intro impI, elim conjE)
    assume fatal: "error_code err = Some ''unauthorized_client''"
    assume "authenticate env u origin names opts w = (res, w')"
      and "ExchangeCall cb v \<in> set (new_events w w')"
      and "authorizationCodeGrant env cb v = Inl err"
    then have "handleOidcCallback_catch err names opts (emit (ExchangeCall cb v) w) = (res, w')"
      by (rule exchange_rejected)
    then have w': "w' = emit (ExchangeCall cb v) w"
      using fatal by (cases rule: handleOidcCallback_catch_cases) simp_all
    show "filter is_cookie_op (new_events w w') = [] \<and> jar w' = jar w"
      unfolding w' by (simp add: new_events_def)
  qed
  have store: "authenticateWithSds env sds u origin names opts w = (res, w')
      \<and> ExchangeCall cb v \<in> set (new_events w w')
      \<and> authorizationCodeGrant env cb v = Inl err
      \<and> error_code err = Some ''unauthorized_client''
    \<longrightarrow> filter is_cookie_op (new_events w w') = [] \<and> jar w' = jar w"
  proof (intro impI, elim conjE)
    assume fatal: "error_code err = Some ''unauthorized_client''"
    assume "authenticateWithSds env sds u origin names opts w = (res, w')"
      and "ExchangeCall cb v \<in> set (new_events w w')"
      and "authorizationCodeGrant env cb v = Inl err"
    then obtain tempId where "handleSdsOidcCallback_catch err names opts
        (emit (ExchangeCall cb v) (emit (SdsTempGet tempId CODE_VERIFIER) w)) = (res, w')"
      using sds_exchange_rejected by blast
    then have w': "w' = emit (ExchangeCall cb v) (emit (SdsTempGet tempId CODE_VERIFIER) w)"
      using fatal by (cases rule: handleSdsOidcCallback_catch_cases) simp_all
    show "filter is_cookie_op (new_events w w') = [] \<and> jar w' = jar w"
      unfolding w' by (simp add: new_events_def)
  qed
  from cookie store show ?thesis by (intro conjI)
qed

text \<open>A fatal rejection in both authenticators, on requests that hold cookies.\<close>

theorem unauthorized_client_leaves_cookies_witness:
  "ExchangeCall callback_href ''verifier-2'' \<in> set (new_events
       (request [(''app_code_verifier'', ''verifier-2''), (''app_access_token'', ''old'')])
       (snd (authenticate demo_env callback_url demo_origin demo_names demo_options
          (request [(''app_code_verifier'', ''verifier-2''), (''app_access_token'', ''old'')]))))
   \<and> authorizationCodeGrant demo_env callback_href ''verifier-2''
       = Inl (ResponseBodyError ''unauthorized_client'')
   \<and> filter is_cookie_op (new_events
       (request [(''app_code_verifier'', ''verifier-2''), (''app_access_token'', ''old'')])
       (snd (authenticate demo_env callback_url demo_origin demo_names demo_options
          (request [(''app_code_verifier'', ''verifier-2''), (''app_access_token'', ''old'')]))))
       = []
   \<and> jar (snd (authenticate demo_env callback_url demo_origin demo_names demo_options
          (request [(''app_code_verifier'', ''verifier-2''), (''app_access_token'', ''old'')])))
       = jar (request [(''app_code_verifier'', ''verifier-2''), (''app_access_token'', ''old'')])
   \<and> ExchangeCall callback_href ''verifier-2'' \<in> set (new_events
       (request [(''app_temp_session_id'', ''temp-2'')])
       (snd (authenticateWithSds demo_env demo_sds callback_url demo_origin demo_names
          demo_options (request [(''app_temp_session_id'', ''temp-2'')]))))
   \<and> filter is_cookie_op (new_events
       (request [(''app_temp_session_id'', ''temp-2'')])
       (snd (authenticateWithSds demo_env demo_sds callback_url demo_origin demo_names
          demo_options (request [(''app_temp_session_id'', ''temp-2'')])))) = []
   \<and> jar (snd (authenticateWithSds demo_env demo_sds callback_url demo_origin demo_names
          demo_options (request [(''app_temp_session_id'', ''temp-2'')])))
       = jar (request [(''app_temp_session_id'', ''temp-2'')])"
proof -
  let ?w2 = "request [(''app_code_verifier'', ''verifier-2''), (''app_access_token'', ''old'')]"
  let ?a2 = "authenticate demo_env callback_url demo_origin demo_names demo_options ?w2"
  let ?t2 = "request [(''app_temp_session_id'', ''temp-2'')]"
  let ?s2 = "authenticateWithSds demo_env demo_sds callback_url demo_origin demo_names
      demo_options ?t2"
  have fatal: "authorizationCodeGrant demo_env callback_href ''verifier-2''
      = Inl (ResponseBodyError ''unauthorized_client'')"
    by (simp add: demo_env_def)
  have c2: "ExchangeCall callback_href ''verifier-2'' \<in> set (new_events ?w2 (snd ?a2))"
    by (simp add: run_defs demo_defs)
  have d2: "ExchangeCall callback_href ''verifier-2'' \<in> set (new_events ?t2 (snd ?s2))"
    by (simp add: run_defs demo_defs)
  have pa: "?a2 = (fst ?a2, snd ?a2)
      \<and> ExchangeCall callback_href ''verifier-2'' \<in> set (new_events ?w2 (snd ?a2))
      \<and> authorizationCodeGrant demo_env callback_href ''verifier-2''
          = Inl (ResponseBodyError ''unauthorized_client'')
      \<and> error_code (ResponseBodyError ''unauthorized_client'') = Some ''unauthorized_client''"
    using c2 fatal by simp
  have ps: "?s2 = (fst ?s2, snd ?s2)
      \<and> ExchangeCall callback_href ''verifier-2'' \<in> set (new_events ?t2 (snd ?s2))
      \<and> authorizationCodeGrant demo_env callback_href ''verifier-2''
          = Inl (ResponseBodyError ''unauthorized_client'')
      \<and> error_code (ResponseBodyError ''unauthorized_client'') = Some ''unauthorized_client''"
    using d2 fatal by simp
  have r2: "filter is_cookie_op (new_events ?w2 (snd ?a2)) = [] \<and> jar (snd ?a2) = jar ?w2"
    using unauthorized_client_leaves_cookies[THEN conjunct1, THEN mp, OF pa] .
  have q2: "filter is_cookie_op (new_events ?t2 (snd ?s2)) = [] \<and> jar (snd ?s2) = jar ?t2"
    using unauthorized_client_leaves_cookies[THEN conjunct2, THEN mp, OF ps] .
  from c2 fatal r2 d2 q2 show ?thesis by (intro conjI) simp_all
qed

section \<open>A response without expiry\<close>

text \<open>
  Claim C10, as the code has it. When \<open>expires_in\<close> is absent or 0 and the new access token
  decodes, \<open>handleAuthSuccess\<close> returns \<open>Success\<close> with the claims and the token, performs no
  operation on the access-token slot, and leaves the cookie stored there as it was; the
  same holds of a whole call of \<open>authenticate\<close> that comes to it through a successful
  refresh or a successful code exchange. (The access-token slot is a slot of its own: its
  name differs from the refresh-token and code-verifier names.)
\<close>

theorem falsy_expiry_keeps_access_cookie:
  assumes distinct: "accessToken names \<noteq> refreshToken names"
    "accessToken names \<noteq> codeVerifier names"
  shows
   "(truthy_num ex = None \<and> jwtDecode env tok = Some claims \<longrightarrow>
       fst (handleAuthSuccess env names opts tok rt ex w) = Inr (Success claims tok)
       \<and> filter (touches (accessToken names))
           (new_events w (snd (handleAuthSuccess env names opts tok rt ex w))) = []
       \<and> jar (snd (handleAuthSuccess env names opts tok rt ex w)) (accessToken names)
           = jar w (accessToken names))
    \<and> (truthy_str (cookies_get w (refreshToken names)) = Some r
       \<and> (case truthy_str (cookies_get w (accessToken names)) of
             None \<Rightarrow> True
           | Some a \<Rightarrow> \<not> fst (validateAccessToken env a w))
       \<and> refreshTokenGrant env r = Inr tokens
       \<and> truthy_num (expires_in tokens) = None
       \<and> jwtDecode env (access_token tokens) = Some claims \<longrightarrow>
       fst (authenticate env u origin names opts w) = Inr (Success claims (access_token tokens))
       \<and> filter (touches (accessToken names))
           (new_events w (snd (authenticate env u origin names opts w))) = []
       \<and> jar (snd (authenticate env u origin names opts w)) (accessToken names)
           = jar w (accessToken names))
    \<and> (truthy_str (cookies_get w (refreshToken names)) = None
       \<and> isOidcCallback u
       \<and> truthy_str (cookies_get w (codeVerifier names)) = Some v
       \<and> newURL env (origin @ pathname u @ search u) = Some cb
       \<and> authorizationCodeGrant env cb v = Inr tokens
       \<and> truthy_num (expires_in tokens) = None
       \<and> jwtDecode env (access_token tokens) = Some claims \<longrightarrow>
       fst (authenticate env u origin names opts w) = Inr (Success claims (access_token tokens))
       \<and> filter (touches (accessToken names))
           (new_events w (snd (authenticate env u origin names opts w))) = []
       \<and> jar (snd (authenticate env u origin names opts w)) (accessToken names)
           = jar w (accessToken names))"
proof -
  have direct: "truthy_num ex = None \<and> jwtDecode env tok = Some claims \<longrightarrow>
       fst (handleAuthSuccess env names opts tok rt ex w) = Inr (Success claims tok)
       \<and> filter (touches (accessToken names))
           (new_events w (snd (handleAuthSuccess env names opts tok rt ex w))) = []
       \<and> jar (snd (handleAuthSuccess env names opts tok rt ex w)) (accessToken names)
           = jar w (accessToken names)"
    using handleAuthSuccess_keeps_access[OF _ distinct]
    by (simp add: handleAuthSuccess_fst)
  have refreshed: "truthy_str (cookies_get w (refreshToken names)) = Some r
       \<and> (case truthy_str (cookies_get w (accessToken names)) of
             None \<Rightarrow> True
           | Some a \<Rightarrow> \<not> fst (validateAccessToken env a w))
       \<and> refreshTokenGrant env r = Inr tokens
       \<and> truthy_num (expires_in tokens) = None
       \<and> jwtDecode env (access_token tokens) = Some claims \<longrightarrow>
       fst (authenticate env u origin names opts w) = Inr (Success claims (access_token tokens))
       \<and> filter (touches (accessToken names))
           (new_events w (snd (authenticate env u origin names opts w))) = []
       \<and> jar (snd (authenticate env u origin names opts w)) (accessToken names)
           = jar w (accessToken names)"
  proof (intro impI, elim conjE)
    assume refresh: "truthy_str (cookies_get w (refreshToken names)) = Some r"
      and stale: "case truthy_str (cookies_get w (accessToken names)) of
             None \<Rightarrow> True
           | Some a \<Rightarrow> \<not> fst (validateAccessToken env a w)"
      and grant: "refreshTokenGrant env r = Inr tokens"
      and expiry: "truthy_num (expires_in tokens) = None"
      and decodes: "jwtDecode env (access_token tokens) = Some claims"
    from authenticate_refresh[OF refresh stale, of u origin opts] obtain w1 es where
      es: "jar w1 = jar w" "trace w1 = trace w @ es" "filter is_cookie_op es = []"
      and run: "authenticate env u origin names opts w = doRefresh env r names opts w1"
      by (elim exE conjE)
    note run' = run[unfolded doRefresh_granted[OF grant]]
    have touch: "filter (touches (accessToken names)) es = []"
      using es(3) by (rule no_cookie_ops_filter)
    have "fst (authenticate env u origin names opts w)
        = Inr (Success claims (access_token tokens))"
      unfolding run' using decodes by (simp add: handleAuthSuccess_fst)
    moreover have "filter (touches (accessToken names))
           (new_events w (snd (authenticate env u origin names opts w))) = []"
      unfolding run' using es(2) touch expiry distinct
      by (simp add: new_events_def handleAuthSuccess_trace split: option.splits)
    moreover have "jar (snd (authenticate env u origin names opts w)) (accessToken names)
           = jar w (accessToken names)"
      unfolding run' using es(1) expiry distinct
      by (simp add: handleAuthSuccess_jar Let_def split: option.splits)
    ultimately show "fst (authenticate env u origin names opts w)
         = Inr (Success claims (access_token tokens))
       \<and> filter (touches (accessToken names))
           (new_events w (snd (authenticate env u origin names opts w))) = []
       \<and> jar (snd (authenticate env u origin names opts w)) (accessToken names)
           = jar w (accessToken names)"
      by (intro conjI)
  qed
  have exchanged: "truthy_str (cookies_get w (refreshToken names)) = None
       \<and> isOidcCallback u
       \<and> truthy_str (cookies_get w (codeVerifier names)) = Some v
       \<and> newURL env (origin @ pathname u @ search u) = Some cb
       \<and> authorizationCodeGrant env cb v = Inr tokens
       \<and> truthy_num (expires_in tokens) = None
       \<and> jwtDecode env (access_token tokens) = Some claims \<longrightarrow>
       fst (authenticate env u origin names opts w) = Inr (Success claims (access_token tokens))
       \<and> filter (touches (accessToken names))
           (new_events w (snd (authenticate env u origin names opts w))) = []
       \<and> jar (snd (authenticate env u origin names opts w)) (accessToken names)
           = jar w (accessToken names)"
  proof (intro impI, elim conjE)
    assume refresh: "truthy_str (cookies_get w (refreshToken names)) = None"
      and cb: "isOidcCallback u"
      and verifier: "truthy_str (cookies_get w (codeVerifier names)) = Some v"
      and url: "newURL env (origin @ pathname u @ search u) = Some cb"
      and grant: "authorizationCodeGrant env cb v = Inr tokens"
      and expiry: "truthy_num (expires_in tokens) = None"
      and decodes: "jwtDecode env (access_token tokens) = Some claims"
    note run = authenticate_exchange_granted[OF refresh cb verifier url grant decodes]
    have "fst (authenticate env u origin names opts w)
        = Inr (Success claims (access_token tokens))"
      unfolding run using decodes by (simp add: handleAuthSuccess_fst)
    moreover have "filter (touches (accessToken names))
           (new_events w (snd (authenticate env u origin names opts w))) = []"
      unfolding run using expiry distinct
      by (simp add: new_events_def handleAuthSuccess_trace split: option.splits)
    moreover have "jar (snd (authenticate env u origin names opts w)) (accessToken names)
           = jar w (accessToken names)"
      unfolding run using expiry distinct
      by (simp add: handleAuthSuccess_jar Let_def split: option.splits)
    ultimately show "fst (authenticate env u origin names opts w)
         = Inr (Success claims (access_token tokens))
       \<and> filter (touches (accessToken names))
           (new_events w (snd (authenticate env u origin names opts w))) = []
       \<and> jar (snd (authenticate env u origin names opts w)) (accessToken names)
           = jar w (accessToken names)"
      by (intro conjI)
  qed
  from direct refreshed exchanged show ?thesis by (intro conjI)
qed

text \<open>A refresh without \<open>expires_in\<close>, an exchange with \<open>expires_in\<close> 0, and the handler alone.\<close>

theorem falsy_expiry_keeps_access_cookie_witness:
  "accessToken demo_names \<noteq> refreshToken demo_names
   \<and> accessToken demo_names \<noteq> codeVerifier demo_names
   \<and> refreshTokenGrant demo_env ''refresh-2''
       = Inr \<lparr> access_token = ''jwt-user-123'', refresh_token = Some ''refresh-3'',
               expires_in = None \<rparr>
   \<and> fst (authenticate demo_env plain_url demo_origin demo_names demo_options
        (request [(''app_access_token'', ''old''), (''app_refresh_token'', ''refresh-2'')]))
       = Inr (Success demo_claims ''jwt-user-123'')
   \<and> jar (snd (authenticate demo_env plain_url demo_origin demo_names demo_options
        (request [(''app_access_token'', ''old''), (''app_refresh_token'', ''refresh-2'')])))
        (accessToken demo_names) = Some ''old''
   \<and> filter (touches (accessToken demo_names)) (new_events
        (request [(''app_access_token'', ''old''), (''app_refresh_token'', ''refresh-2'')])
        (snd (authenticate demo_env plain_url demo_origin demo_names demo_options
          (request [(''app_access_token'', ''old''), (''app_refresh_token'', ''refresh-2'')]))))
       = []
   \<and> authorizationCodeGrant demo_env callback_href ''verifier-3''
       = Inr \<lparr> access_token = ''jwt-user-123'', refresh_token = Some ''refresh-2'',
               expires_in = Some 0 \<rparr>
   \<and> fst (authenticate demo_env callback_url demo_origin demo_names demo_options
        (request [(''app_access_token'', ''old''), (''app_code_verifier'', ''verifier-3'')]))
       = Inr (Success demo_claims ''jwt-user-123'')
   \<and> jar (snd (authenticate demo_env callback_url demo_origin demo_names demo_options
        (request [(''app_access_token'', ''old''), (''app_code_verifier'', ''verifier-3'')])))
        (accessToken demo_names) = Some ''old''
   \<and> fst (handleAuthSuccess demo_env demo_names demo_options ''jwt-user-123'' None (Some 0)
        (request [(''app_access_token'', ''old'')]))
       = Inr (Success demo_claims ''jwt-user-123'')
   \<and> jar (snd (handleAuthSuccess demo_env demo_names demo_options ''jwt-user-123'' None (Some 0)
        (request [(''app_access_token'', ''old'')]))) (accessToken demo_names) = Some ''old''"
proof -
  let ?w = "request [(''app_access_token'', ''old''), (''app_refresh_token'', ''refresh-2'')]"
  let ?v = "request [(''app_access_token'', ''old''), (''app_code_verifier'', ''verifier-3'')]"
  let ?h = "request [(''app_access_token'', ''old'')]"
  let ?t2 = "\<lparr> access_token = ''jwt-user-123'', refresh_token = Some ''refresh-3'',
               expires_in = None \<rparr>"
  let ?t3 = "\<lparr> access_token = ''jwt-user-123'', refresh_token = Some ''refresh-2'',
               expires_in = Some (0::int) \<rparr>"
  have d1: "accessToken demo_names \<noteq> refreshToken demo_names"
    and d2: "accessToken demo_names \<noteq> codeVerifier demo_names"
    by (simp_all add: demo_defs)
  have grant2: "refreshTokenGrant demo_env ''refresh-2'' = Inr ?t2"
    and grant3: "authorizationCodeGrant demo_env callback_href ''verifier-3'' = Inr ?t3"
    and decodes: "jwtDecode demo_env ''jwt-user-123'' = Some demo_claims"
    by (simp_all add: demo_env_def)
  have pre_refresh: "truthy_str (cookies_get ?w (refreshToken demo_names)) = Some ''refresh-2''
       \<and> (case truthy_str (cookies_get ?w (accessToken demo_names)) of
             None \<Rightarrow> True
           | Some a \<Rightarrow> \<not> fst (validateAccessToken demo_env a ?w))
       \<and> refreshTokenGrant demo_env ''refresh-2'' = Inr ?t2
       \<and> truthy_num (expires_in ?t2) = None
       \<and> jwtDecode demo_env (access_token ?t2) = Some demo_claims"
    by (simp add: run_defs demo_defs)
  have pre_exchange: "truthy_str (cookies_get ?v (refreshToken demo_names)) = None
       \<and> isOidcCallback callback_url
       \<and> truthy_str (cookies_get ?v (codeVerifier demo_names)) = Some ''verifier-3''
       \<and> newURL demo_env (demo_origin @ pathname callback_url @ search callback_url)
           = Some callback_href
       \<and> authorizationCodeGrant demo_env callback_href ''verifier-3'' = Inr ?t3
       \<and> truthy_num (expires_in ?t3) = None
       \<and> jwtDecode demo_env (access_token ?t3) = Some demo_claims"
    by (simp add: run_defs demo_defs)
  have pre_direct: "truthy_num (Some (0::int)) = None
      \<and> jwtDecode demo_env ''jwt-user-123'' = Some demo_claims"
    using decodes by simp
  note inst = falsy_expiry_keeps_access_cookie[OF d1 d2]
  from inst[THEN conjunct2, THEN conjunct1, THEN mp, OF pre_refresh]
  have r: "fst (authenticate demo_env plain_url demo_origin demo_names demo_options ?w)
       = Inr (Success demo_claims ''jwt-user-123'')"
    "filter (touches (accessToken demo_names)) (new_events ?w
        (snd (authenticate demo_env plain_url demo_origin demo_names demo_options ?w))) = []"
    "jar (snd (authenticate demo_env plain_url demo_origin demo_names demo_options ?w))
        (accessToken demo_names) = Some ''old''"
    by (simp_all add: demo_defs)
  from inst[THEN conjunct2, THEN conjunct2, THEN mp, OF pre_exchange]
  have e: "fst (authenticate demo_env callback_url demo_origin demo_names demo_options ?v)
       = Inr (Success demo_claims ''jwt-user-123'')"
    "jar (snd (authenticate demo_env callback_url demo_origin demo_names demo_options ?v))
        (accessToken demo_names) = Some ''old''"
    by (simp_all add: demo_defs)
  from inst[THEN conjunct1, THEN mp, OF pre_direct]
  have h: "fst (handleAuthSuccess demo_env demo_names demo_options ''jwt-user-123'' None
        (Some 0) ?h) = Inr (Success demo_claims ''jwt-user-123'')"
    "jar (snd (handleAuthSuccess demo_env demo_names demo_options ''jwt-user-123'' None
        (Some 0) ?h)) (accessToken demo_names) = Some ''old''"
    by (simp_all add: demo_defs)
  from d1 d2 grant2 r(1) r(3) r(2) grant3 e h show ?thesis by (intro conjI)
qed

text \<open>A successful exchange without \<open>expires_in\<close> whose access token does not decode: the handler throws, the call returns \<open>Fail\<close> and the stored access-token cookie is deleted.\<close>

theorem undecodable_exchange_clears_access_cookie:
  "truthy_str (cookies_get
      (request [(''app_access_token'', ''old''), (''app_code_verifier'', ''verifier-1'')])
      (refreshToken demo_names)) = None
   \<and> isOidcCallback callback_url
   \<and> authorizationCodeGrant demo_env callback_href ''verifier-1''
       = Inr \<lparr> access_token = ''opaque'', refresh_token = Some ''refresh-1'',
               expires_in = None \<rparr>
   \<and> fst (handleAuthSuccess demo_env demo_names demo_options ''opaque'' (Some ''refresh-1'')
        None (request [(''app_access_token'', ''old''), (''app_code_verifier'', ''verifier-1'')]))
       = Inl InvalidTokenError
   \<and> fst (authenticate demo_env callback_url demo_origin demo_names demo_options
        (request [(''app_access_token'', ''old''), (''app_code_verifier'', ''verifier-1'')]))
       = Inr Fail
   \<and> jar (request [(''app_access_token'', ''old''), (''app_code_verifier'', ''verifier-1'')])
        ''app_access_token'' = Some ''old''
   \<and> jar (snd (authenticate demo_env callback_url demo_origin demo_names demo_options
        (request [(''app_access_token'', ''old''), (''app_code_verifier'', ''verifier-1'')])))
        ''app_access_token'' = None
   \<and> filter (touches ''app_access_token'') (new_events
        (request [(''app_access_token'', ''old''), (''app_code_verifier'', ''verifier-1'')])
        (snd (authenticate demo_env callback_url demo_origin demo_names demo_options
          (request [(''app_access_token'', ''old''), (''app_code_verifier'', ''verifier-1'')]))))
       = [CookieDelete ''app_access_token'' (demo_options\<lparr> maxAge := Some 0 \<rparr>)]"
  by (simp add: run_defs demo_defs)

end
